theory Spec2Isabelle
  imports Main
begin

section \<open>Go values used by the provider\<close>

text \<open>
  A Go \<^verbatim>\<open>error\<close> is modelled by the text its \<^verbatim>\<open>Error()\<close> method returns.
  A panic (a failed type assertion on a nil interface value, a nil pointer dereference)
  is a value of its own: every function that can panic returns \<open>panic + 'a\<close>.
\<close>

type_synonym err = string

datatype panic = NilInterfaceConversion | NilPointerDereference

text \<open>\<^verbatim>\<open>fmt.Sprintf("%d", n)\<close>: the decimal digits of a Go \<^verbatim>\<open>int\<close>, with a minus sign
  for a negative number.\<close>

definition digit_char :: "nat \<Rightarrow> char" where
  "digit_char n = ''0123456789'' ! n"

fun digits :: "nat \<Rightarrow> string" where
  "digits n = (if n < 10 then [digit_char n] else digits (n div 10) @ [digit_char (n mod 10)])"

declare digits.simps [simp del]

definition fmt_d :: "int \<Rightarrow> string" where
  "fmt_d i = (if i < 0 then CHR ''-'' # digits (nat (- i)) else digits (nat i))"

text \<open>\<^verbatim>\<open>strings.Contains(s, sub)\<close>, used to say that a message includes a text.\<close>

fun Contains :: "string \<Rightarrow> string \<Rightarrow> bool" where
  "Contains [] sub = (sub = [])"
| "Contains (c # cs) sub = (take (length sub) (c # cs) = sub \<or> Contains cs sub)"

text \<open>
  The loop \<^verbatim>\<open>for _, i := range l { out = append(out, f(i)) }\<close>: it stops at the first
  element on which the body panics.
\<close>

fun range_append :: "('a \<Rightarrow> panic + 'b) \<Rightarrow> 'a list \<Rightarrow> panic + 'b list" where
  "range_append f [] = Inr []"
| "range_append f (i # l) =
     (case f i of
        Inl p \<Rightarrow> Inl p
      | Inr y \<Rightarrow> (case range_append f l of Inl p \<Rightarrow> Inl p | Inr ys \<Rightarrow> Inr (y # ys)))"

text \<open>The type assertions \<^verbatim>\<open>i.(map[string]interface{})\<close> and \<^verbatim>\<open>i.(string)\<close> on a list
  element: a nil element (\<open>None\<close>) panics.\<close>

definition assert_elem :: "'a option \<Rightarrow> panic + 'a" where
  "assert_elem i = (case i of None \<Rightarrow> Inl NilInterfaceConversion | Some v \<Rightarrow> Inr v)"

section \<open>The flat attributes of the schema\<close>

text \<open>
  \<^verbatim>\<open>d.Get(key)\<close> returns the value the schema declares for the key: a string, an int, a
  bool, or a list. An unset optional attribute reads as the zero value of its type (the
  empty string, 0, false, the empty list) unless the schema gives a \<^verbatim>\<open>Default\<close>. A list
  element of the host may be nil, so a list of blocks is a list of \<open>option\<close>s.
\<close>

record kv_block =
  kv_key :: string
  kv_value :: string
  kv_node_filters :: "string option list"

record exposure_block =
  host :: string
  host_ip :: string
  host_port :: int

record port_block =
  port_host :: string
  port_host_port :: int
  container_port :: int
  protocol :: string
  port_node_filters :: "string option list"

record volume_block =
  source :: string
  destination :: string
  volume_node_filters :: "string option list"

record registry_volume_block =
  registry_source :: string
  registry_destination :: string

record k3d_block =
  disable_image_volume :: bool
  disable_load_balancer :: bool

record extra_arg_block =
  arg :: string
  arg_node_filters :: "string option list"

record k3s_block =
  extra_args :: "extra_arg_block option list"

record kubeconfig_block =
  update_default_kubeconfig :: bool
  switch_current_context :: bool

record runtime_block =
  agents_memory :: string
  gpu_request :: string
  servers_memory :: string

record registry_create_block =
  create_name :: string
  create_host :: string
  create_image :: string
  create_host_port :: string

record registries_block =
  config :: string
  create :: "registry_create_block option list"
  use :: "string option list"

section \<open>The configuration structures of the k3d library\<close>

record EnvVarWithNodeFilters =
  EnvVar :: string
  EnvVar_NodeFilters :: "string list"

record LabelWithNodeFilters =
  Label :: string
  Label_NodeFilters :: "string list"

record PortWithNodeFilters =
  Port :: string
  Port_NodeFilters :: "string list"

record VolumeWithNodeFilters =
  Volume :: string
  Volume_NodeFilters :: "string list"

record K3sArgWithNodeFilters =
  Arg :: string
  Arg_NodeFilters :: "string list"

record SimpleExposureOpts =
  Host :: string
  HostIP :: string
  HostPort :: string

record SimpleConfigOptionsK3d =
  NoRollback :: bool
  Timeout :: int
  Wait :: bool
  DisableImageVolume :: bool
  DisableLoadbalancer :: bool

record SimpleConfigOptionsK3s =
  ExtraArgs :: "K3sArgWithNodeFilters list"

record SimpleConfigOptionsKubeconfig =
  SwitchCurrentContext :: bool
  UpdateDefaultKubeconfig :: bool

record SimpleConfigOptionsRuntime =
  AgentsMemory :: string
  GPURequest :: string
  ServersMemory :: string
  Labels :: "LabelWithNodeFilters list"

record SimpleConfigOptions =
  K3dOptions :: SimpleConfigOptionsK3d
  K3sOptions :: SimpleConfigOptionsK3s
  KubeconfigOptions :: SimpleConfigOptionsKubeconfig
  Runtime :: SimpleConfigOptionsRuntime

record SimpleConfigRegistryCreateConfig =
  Create_Name :: string
  Create_Host :: string
  Create_Image :: string
  Create_HostPort :: string

record SimpleConfigRegistries =
  Config :: string
  Create :: "SimpleConfigRegistryCreateConfig option"
  Use :: "string list"

record SimpleConfig =
  Name :: string
  Agents :: int
  ClusterToken :: string
  Env :: "EnvVarWithNodeFilters list"
  ExposeAPI :: SimpleExposureOpts
  Image :: string
  Network :: string
  Ports :: "PortWithNodeFilters list"
  Servers :: int
  Volumes :: "VolumeWithNodeFilters list"
  Options :: SimpleConfigOptions
  Registries :: SimpleConfigRegistries

section \<open>Expanding flat attributes (the pure expanders)\<close>

text \<open>\<^verbatim>\<open>expandNodeFilters\<close>. A nil slice and an empty slice are both \<open>[]\<close>.\<close>

definition expandNodeFilters :: "string option list \<Rightarrow> panic + string list" where
  "expandNodeFilters l =
     (if length l = 0 \<or> hd l = None then Inr []
      else range_append assert_elem l)"

text \<open>The body of the loop of \<^verbatim>\<open>expandVolumes\<close> after the type assertion: the volume
  string, then the node filters.\<close>

definition volume_string :: "string \<Rightarrow> string \<Rightarrow> string" where
  "volume_string src dst =
     (let volume = dst in
      if src \<noteq> '''' then src @ '':'' @ dst else volume)"

definition expandVolume :: "volume_block option \<Rightarrow> panic + VolumeWithNodeFilters" where
  "expandVolume i =
     (case assert_elem i of
        Inl p \<Rightarrow> Inl p
      | Inr v \<Rightarrow>
          (let volume = volume_string (source v) (destination v) in
           case expandNodeFilters (volume_node_filters v) of
             Inl p \<Rightarrow> Inl p
           | Inr nf \<Rightarrow> Inr \<lparr>Volume = volume, Volume_NodeFilters = nf\<rparr>))"

definition expandVolumes :: "volume_block option list \<Rightarrow> panic + VolumeWithNodeFilters list" where
  "expandVolumes l =
     (if length l = 0 \<or> hd l = None then Inr []
      else range_append expandVolume l)"

text \<open>\<^verbatim>\<open>expandRegistryVolumes\<close> of the registry resource.\<close>

definition expandRegistryVolume :: "registry_volume_block option \<Rightarrow> panic + string" where
  "expandRegistryVolume i =
     (case assert_elem i of
        Inl p \<Rightarrow> Inl p
      | Inr v \<Rightarrow> Inr (volume_string (registry_source v) (registry_destination v)))"

definition expandRegistryVolumes :: "registry_volume_block option list \<Rightarrow> panic + string list" where
  "expandRegistryVolumes l =
     (if length l = 0 \<or> hd l = None then Inr []
      else range_append expandRegistryVolume l)"

text \<open>\<^verbatim>\<open>expandPorts\<close>: \<^verbatim>\<open>fmt.Sprintf("%s:%d:%d/%s", host, host_port, container_port, protocol)\<close>.\<close>

definition port_string :: "port_block \<Rightarrow> string" where
  "port_string v =
     port_host v @ '':'' @ fmt_d (port_host_port v) @ '':'' @ fmt_d (container_port v)
       @ ''/'' @ protocol v"

definition expandPort :: "port_block option \<Rightarrow> panic + PortWithNodeFilters" where
  "expandPort i =
     (case assert_elem i of
        Inl p \<Rightarrow> Inl p
      | Inr v \<Rightarrow>
          (case expandNodeFilters (port_node_filters v) of
             Inl p \<Rightarrow> Inl p
           | Inr nf \<Rightarrow> Inr \<lparr>Port = port_string v, Port_NodeFilters = nf\<rparr>))"

definition expandPorts :: "port_block option list \<Rightarrow> panic + PortWithNodeFilters list" where
  "expandPorts l =
     (if length l = 0 \<or> hd l = None then Inr []
      else range_append expandPort l)"

text \<open>\<^verbatim>\<open>expandEnvVars\<close> and \<^verbatim>\<open>expandLabels\<close>: \<^verbatim>\<open>fmt.Sprintf("%s=%s", key, value)\<close>.\<close>

definition expandEnvVar :: "kv_block option \<Rightarrow> panic + EnvVarWithNodeFilters" where
  "expandEnvVar i =
     (case assert_elem i of
        Inl p \<Rightarrow> Inl p
      | Inr v \<Rightarrow>
          (case expandNodeFilters (kv_node_filters v) of
             Inl p \<Rightarrow> Inl p
           | Inr nf \<Rightarrow>
               Inr \<lparr>EnvVar = kv_key v @ ''='' @ kv_value v, EnvVar_NodeFilters = nf\<rparr>))"

definition expandEnvVars :: "kv_block option list \<Rightarrow> panic + EnvVarWithNodeFilters list" where
  "expandEnvVars l =
     (if length l = 0 \<or> hd l = None then Inr []
      else range_append expandEnvVar l)"

definition expandLabel :: "kv_block option \<Rightarrow> panic + LabelWithNodeFilters" where
  "expandLabel i =
     (case assert_elem i of
        Inl p \<Rightarrow> Inl p
      | Inr v \<Rightarrow>
          (case expandNodeFilters (kv_node_filters v) of
             Inl p \<Rightarrow> Inl p
           | Inr nf \<Rightarrow>
               Inr \<lparr>Label = kv_key v @ ''='' @ kv_value v, Label_NodeFilters = nf\<rparr>))"

definition expandLabels :: "kv_block option list \<Rightarrow> panic + LabelWithNodeFilters list" where
  "expandLabels l =
     (if length l = 0 \<or> hd l = None then Inr []
      else range_append expandLabel l)"

text \<open>\<^verbatim>\<open>expandConfigOptionsK3d\<close>, \<^verbatim>\<open>expandConfigOptionsK3s\<close>,
  \<^verbatim>\<open>expandConfigOptionsKubeconfig\<close>, \<^verbatim>\<open>expandConfigOptionsRuntime\<close>. The zero value of
  a structure has every field at its zero value.\<close>

definition expandConfigOptionsK3d :: "k3d_block option list \<Rightarrow> SimpleConfigOptionsK3d" where
  "expandConfigOptionsK3d l =
     (let opts = \<lparr>NoRollback = False, Timeout = 0, Wait = True,
                  DisableImageVolume = False, DisableLoadbalancer = False\<rparr> in
      if length l = 0 \<or> hd l = None then opts
      else (let v = the (hd l) in
            opts\<lparr>DisableImageVolume := disable_image_volume v,
                 DisableLoadbalancer := disable_load_balancer v\<rparr>))"

definition expandExtraArg :: "extra_arg_block option \<Rightarrow> panic + K3sArgWithNodeFilters" where
  "expandExtraArg i =
     (case assert_elem i of
        Inl p \<Rightarrow> Inl p
      | Inr v \<Rightarrow>
          (case expandNodeFilters (arg_node_filters v) of
             Inl p \<Rightarrow> Inl p
           | Inr nf \<Rightarrow> Inr \<lparr>Arg = arg v, Arg_NodeFilters = nf\<rparr>))"

definition expandConfigOptionsK3s :: "k3s_block option list \<Rightarrow> panic + SimpleConfigOptionsK3s" where
  "expandConfigOptionsK3s l =
     (if length l = 0 \<or> hd l = None then Inr \<lparr>ExtraArgs = []\<rparr>
      else (let v = the (hd l) in
            case range_append expandExtraArg (extra_args v) of
              Inl p \<Rightarrow> Inl p
            | Inr extraArgs \<Rightarrow> Inr \<lparr>ExtraArgs = extraArgs\<rparr>))"

definition expandConfigOptionsKubeconfig ::
  "kubeconfig_block option list \<Rightarrow> SimpleConfigOptionsKubeconfig" where
  "expandConfigOptionsKubeconfig l =
     (if length l = 0 \<or> hd l = None
      then \<lparr>SwitchCurrentContext = False, UpdateDefaultKubeconfig = False\<rparr>
      else (let v = the (hd l) in
            \<lparr>SwitchCurrentContext = switch_current_context v,
             UpdateDefaultKubeconfig = update_default_kubeconfig v\<rparr>))"

definition expandConfigOptionsRuntime :: "runtime_block option list \<Rightarrow> SimpleConfigOptionsRuntime" where
  "expandConfigOptionsRuntime l =
     (if length l = 0 \<or> hd l = None
      then \<lparr>AgentsMemory = '''', GPURequest = '''', ServersMemory = '''', Labels = []\<rparr>
      else (let v = the (hd l) in
            \<lparr>AgentsMemory = agents_memory v, GPURequest = gpu_request v,
             ServersMemory = servers_memory v, Labels = []\<rparr>))"

text \<open>
  The registries part of \<^verbatim>\<open>resourceClusterCreate\<close> (the block that starts at
  \<^verbatim>\<open>l := d.Get("registries")\<close>): written inline in the source, a definition here. It
  starts from the zero value of \<^verbatim>\<open>simpleConfig.Registries\<close>. The host port of the
  registry to create is the string attribute \<^verbatim>\<open>host_port\<close>, copied as it is.
\<close>

definition expandRegistries :: "registries_block option list \<Rightarrow> panic + SimpleConfigRegistries" where
  "expandRegistries l =
     (let zero = \<lparr>Config = '''', Create = None, Use = []\<rparr> in
      if length l \<noteq> 0 \<and> hd l \<noteq> None then
        (let v = the (hd l);
             registryToCreate = create v in
         case (if length registryToCreate = 1
               then (case assert_elem (hd registryToCreate) of
                       Inl p \<Rightarrow> Inl p
                     | Inr rtc \<Rightarrow>
                         Inr (Some \<lparr>Create_Name = create_name rtc,
                                    Create_Host = create_host rtc,
                                    Create_Image = create_image rtc,
                                    Create_HostPort = create_host_port rtc\<rparr>))
               else Inr (Create zero)) of
           Inl p \<Rightarrow> Inl p
         | Inr c \<Rightarrow>
             (case range_append assert_elem (use v) of
                Inl p \<Rightarrow> Inl p
              | Inr u \<Rightarrow> Inr \<lparr>Config = config v, Create = c, Use = u\<rparr>))
      else Inr zero)"

section \<open>The k3d library, the plugin host and the state of one operation\<close>

text \<open>
  The structures of the k3d library and of client-go, with the fields this provider reads or
  writes. \<open>Cluster_Network_Name\<close> is \<^verbatim>\<open>cluster.Network.Name\<close>; \<open>K3sNodeLabels\<close> is a Go
  map, kept as an association list. The maps of a kubeconfig hold pointers: a key is
  absent (\<open>None\<close>), or holds the nil pointer (\<open>Some None\<close>), or holds a structure;
  reading an absent key gives the nil pointer too.
\<close>

record Cluster =
  Cluster_Name :: string
  Cluster_Network_Name :: string
  Cluster_Token :: string

record ClusterConfig =
  Config_Cluster :: Cluster
  KubeconfigOpts :: SimpleConfigOptionsKubeconfig

record ClusterDeleteOpts =
  SkipRegistryCheck :: bool

record WriteKubeConfigOptions =
  UpdateExisting :: bool
  OverwriteExisting :: bool
  UpdateCurrentContext :: bool

record AuthInfo =
  ClientCertificateData :: string
  ClientKeyData :: string

record KubeCluster =
  CertificateAuthorityData :: string
  Server :: string

record KubeConfig =
  AuthInfos :: "string \<rightharpoonup> AuthInfo option"
  Clusters :: "string \<rightharpoonup> KubeCluster option"

text \<open>The read \<^verbatim>\<open>m[key]\<close> of a Go map of pointers: \<open>None\<close> is the nil pointer.\<close>

definition map_read :: "('k \<rightharpoonup> 'a option) \<Rightarrow> 'k \<Rightarrow> 'a option" where
  "map_read m key = (case m key of None \<Rightarrow> None | Some p \<Rightarrow> p)"

record Node =
  Node_Name :: string
  Node_Role :: string
  Node_Image :: string
  K3sNodeLabels :: "(string \<times> string) list"
  Restart :: bool
  Memory :: string

record ExposureOpts =
  PortMapping_Port :: string
  Binding_HostIP :: string
  Binding_HostPort :: string

record RegistryProxy =
  RemoteURL :: string
  Username :: string
  Password :: string

record Registry =
  Registry_ExposureOpts :: ExposureOpts
  Registry_Host :: string
  Registry_Image :: string
  Registry_Volumes :: "string list"
  Registry_Options_Proxy :: RegistryProxy

text \<open>Every call that leaves the provider, with its arguments: the calls of the k3d library
  and \<^verbatim>\<open>d.Set\<close> of the plugin host.\<close>

datatype call =
    Call_GetFreePort
  | Call_TransformSimpleToClusterConfig SimpleConfig
  | Call_ProcessClusterConfig ClusterConfig
  | Call_ValidateClusterConfig ClusterConfig
  | Call_ClusterGet Cluster
  | Call_ClusterRun ClusterConfig
  | Call_ClusterDelete Cluster ClusterDeleteOpts
  | Call_KubeconfigGetWrite Cluster string WriteKubeConfigOptions
  | Call_KubeconfigGet Cluster
  | Call_NodeAddToCluster Node Cluster
  | Call_NodeGet Node
  | Call_NodeDelete Node
  | Call_RegistryRun Registry
  | Call_Set string

text \<open>
  The collaborators are not part of this repository. They are a parameter of every
  operation: a record of the constants of \<^verbatim>\<open>pkg/types\<close> and of one function per call,
  over a state \<open>'w\<close> of the outside world (the container runtime, the file system) that
  each call may read and change. A Go result \<^verbatim>\<open>(v, err)\<close> is \<open>Inl err\<close> or \<open>Inr v\<close>; a
  result that is only an \<^verbatim>\<open>error\<close> is \<open>Some err\<close> or \<open>None\<close> (nil).
  \<^verbatim>\<open>clientcmd.Write\<close> serialises a kubeconfig without a call to the runtime; it may
  panic (it does on a nil entry of one of the maps), so its result is
  \<open>panic + (err + string)\<close>.
\<close>

record 'w k3d_lib =
  DefaultObjectNamePrefix :: string
  DefaultRegistryPort :: string
  LabelRole :: string
  LabelClusterName :: string
  NodeRoles :: "(string \<times> string) list"
  GetFreePort :: "'w \<Rightarrow> (int \<times> err option) \<times> 'w"
  TransformSimpleToClusterConfig :: "SimpleConfig \<Rightarrow> 'w \<Rightarrow> (err + ClusterConfig) \<times> 'w"
  ProcessClusterConfig :: "ClusterConfig \<Rightarrow> 'w \<Rightarrow> (err + ClusterConfig) \<times> 'w"
  ValidateClusterConfig :: "ClusterConfig \<Rightarrow> 'w \<Rightarrow> err option \<times> 'w"
  ClusterGet :: "Cluster \<Rightarrow> 'w \<Rightarrow> (err + Cluster) \<times> 'w"
  ClusterRun :: "ClusterConfig \<Rightarrow> 'w \<Rightarrow> err option \<times> 'w"
  ClusterDelete :: "Cluster \<Rightarrow> ClusterDeleteOpts \<Rightarrow> 'w \<Rightarrow> err option \<times> 'w"
  KubeconfigGetWrite ::
    "Cluster \<Rightarrow> string \<Rightarrow> WriteKubeConfigOptions \<Rightarrow> 'w \<Rightarrow> (err + KubeConfig) \<times> 'w"
  KubeconfigGet :: "Cluster \<Rightarrow> 'w \<Rightarrow> (err + KubeConfig) \<times> 'w"
  Write :: "KubeConfig \<Rightarrow> panic + (err + string)"
  NodeAddToCluster :: "Node \<Rightarrow> Cluster \<Rightarrow> 'w \<Rightarrow> err option \<times> 'w"
  NodeGet :: "Node \<Rightarrow> 'w \<Rightarrow> (err + Node) \<times> 'w"
  NodeDelete :: "Node \<Rightarrow> 'w \<Rightarrow> err option \<times> 'w"
  RegistryRun :: "Registry \<Rightarrow> 'w \<Rightarrow> (err + Node) \<times> 'w"
  d_Set :: "string \<Rightarrow> 'w \<Rightarrow> err option \<times> 'w"

text \<open>
  The state of one operation: the outside world, the calls issued so far, each with the
  error it returned (\<open>None\<close> for nil), and the lines written with \<^verbatim>\<open>log.Printf\<close>.
\<close>

record 'w proc =
  world :: 'w
  trace :: "(call \<times> err option) list"
  logged :: "string list"

definition sum_err :: "err + 'a \<Rightarrow> err option" where
  "sum_err r = (case r of Inl e \<Rightarrow> Some e | Inr _ \<Rightarrow> None)"

definition invoke ::
  "call \<Rightarrow> ('r \<Rightarrow> err option) \<Rightarrow> ('w \<Rightarrow> 'r \<times> 'w) \<Rightarrow> 'w proc \<Rightarrow> 'r \<times> 'w proc" where
  "invoke c err_of f s =
     (let (r, w) = f (world s) in
      (r, s\<lparr>world := w, trace := trace s @ [(c, err_of r)]\<rparr>))"

text \<open>\<^verbatim>\<open>log.Printf("[WARN] %s", err)\<close>.\<close>

definition log_warn :: "err \<Rightarrow> 'w proc \<Rightarrow> 'w proc" where
  "log_warn e s = s\<lparr>logged := logged s @ [''[WARN] '' @ e]\<rparr>"

text \<open>The calls the provider issued between two states of an operation.\<close>

definition issued :: "'w proc \<Rightarrow> 'w proc \<Rightarrow> (call \<times> err option) list" where
  "issued s s' = drop (length (trace s)) (trace s')"

text \<open>
  Diagnostics of the plugin SDK. \<^verbatim>\<open>diag.FromErr(err)\<close> and \<^verbatim>\<open>diag.Errorf(format)\<close> both
  build one diagnostic of severity \<^verbatim>\<open>diag.Error\<close>, with the error text or the formatted
  text as summary; the SDK has the two severities \<^verbatim>\<open>Error\<close> and \<^verbatim>\<open>Warning\<close>. The nil
  result of an operation is the empty list.
\<close>

datatype severity = Error | Warning

record Diagnostic =
  Severity :: severity
  Summary :: string

type_synonym Diagnostics = "Diagnostic list"

definition FromErr :: "err \<Rightarrow> Diagnostics" where
  "FromErr e = [\<lparr>Severity = Error, Summary = e\<rparr>]"

definition Errorf :: "string \<Rightarrow> Diagnostics" where
  "Errorf text = [\<lparr>Severity = Error, Summary = text\<rparr>]"

text \<open>
  \<^verbatim>\<open>schema.ResourceData\<close>: the identity (\<^verbatim>\<open>d.Id()\<close>, empty while unset, written by
  \<^verbatim>\<open>d.SetId\<close>) and the attributes, one record per resource on the common part.
\<close>

record ResourceData =
  ResourceId :: string
  name :: string

record Credentials =
  client_certificate :: string
  client_key :: string
  cluster_ca_certificate :: string
  credentials_host :: string
  raw :: string

record ClusterData = ResourceData +
  agents :: int
  credentials :: "Credentials list"
  env :: "kv_block option list"
  cluster_image :: string
  k3d :: "k3d_block option list"
  k3s :: "k3s_block option list"
  kube_api :: "exposure_block option list"
  kubeconfig :: "kubeconfig_block option list"
  label :: "kv_block option list"
  network :: string
  port :: "port_block option list"
  registries :: "registries_block option list"
  runtime :: "runtime_block option list"
  servers :: int
  token :: string
  volume :: "volume_block option list"

record NodeData = ResourceData +
  cluster :: string
  node_image :: string
  memory :: string
  role :: string

record RegistryData = ResourceData +
  registry_image :: string
  registry_port :: "exposure_block option list"
  proxy_remote_url :: string
  proxy_username :: string
  proxy_password :: string
  registry_volume :: "registry_volume_block option list"

record ClusterSourceData = ResourceData +
  kubeconfig_raw :: string
  source_network :: string
  source_token :: string

definition SetId :: "string \<Rightarrow> ('a ResourceData_scheme) \<Rightarrow> ('a ResourceData_scheme)" where
  "SetId v d = d\<lparr>ResourceId := v\<rparr>"

text \<open>\<^verbatim>\<open>&types.Cluster{Name: n}\<close> and \<^verbatim>\<open>&types.Node{Name: n}\<close>: every other field at its
  zero value.\<close>

definition named_cluster :: "string \<Rightarrow> Cluster" where
  "named_cluster n = \<lparr>Cluster_Name = n, Cluster_Network_Name = '''', Cluster_Token = ''''\<rparr>"

definition named_node :: "string \<Rightarrow> Node" where
  "named_node n = \<lparr>Node_Name = n, Node_Role = '''', Node_Image = '''', K3sNodeLabels = [],
                    Restart = False, Memory = ''''\<rparr>"

text \<open>Reading a Go map of strings: a missing key reads as the empty string.\<close>

definition map_index :: "(string \<times> string) list \<Rightarrow> string \<Rightarrow> string" where
  "map_index m key = (case map_of m key of None \<Rightarrow> '''' | Some v \<Rightarrow> v)"

section \<open>The cluster resource\<close>

text \<open>\<^verbatim>\<open>expandExposureOptions\<close>: the free port is asked for first, and the error of
  \<^verbatim>\<open>util.GetFreePort\<close> is dropped.\<close>

definition expandExposureOptions ::
  "'w k3d_lib \<Rightarrow> exposure_block option list \<Rightarrow> 'w proc \<Rightarrow> SimpleExposureOpts \<times> 'w proc" where
  "expandExposureOptions k l s =
     (let (fp, s1) = invoke Call_GetFreePort snd (GetFreePort k) s;
          freePort = fst fp in
      if length l = 0 \<or> hd l = None
      then (\<lparr>Host = '''', HostIP = '''', HostPort = fmt_d freePort\<rparr>, s1)
      else (let v = the (hd l);
                hostPort = host_port v;
                hostPort = (if hostPort = 0 then freePort else hostPort) in
            (\<lparr>Host = host v, HostIP = host_ip v, HostPort = fmt_d hostPort\<rparr>, s1)))"

text \<open>
  The first part of \<^verbatim>\<open>resourceClusterCreate\<close>, down to the registries: it builds the
  \<^verbatim>\<open>SimpleConfig\<close>, the expanders running in the order of the source. The second
  assignment to \<^verbatim>\<open>simpleConfig.Options\<close> replaces the whole structure, so the labels
  expanded for the first one are not in the result.
\<close>

definition expandSimpleConfig ::
  "'w k3d_lib \<Rightarrow> ClusterData \<Rightarrow> 'w proc \<Rightarrow> (panic + SimpleConfig) \<times> 'w proc" where
  "expandSimpleConfig k d s =
     (let clusterName = name d in
      case expandEnvVars (env d) of
        Inl p \<Rightarrow> (Inl p, s)
      | Inr envVars \<Rightarrow>
     (let (exposeAPI, s1) = expandExposureOptions k (kube_api d) s in
      case expandPorts (port d) of
        Inl p \<Rightarrow> (Inl p, s1)
      | Inr ports \<Rightarrow>
     (case expandVolumes (volume d) of
        Inl p \<Rightarrow> (Inl p, s1)
      | Inr volumes \<Rightarrow>
     (case expandLabels (label d) of
        Inl p \<Rightarrow> (Inl p, s1)
      | Inr labels \<Rightarrow>
     (let simpleConfig =
            \<lparr>Name = clusterName,
             Agents = agents d,
             ClusterToken = token d,
             Env = envVars,
             ExposeAPI = exposeAPI,
             Image = cluster_image d,
             Network = network d,
             Ports = ports,
             Servers = servers d,
             Volumes = volumes,
             Options =
               \<lparr>K3dOptions = \<lparr>NoRollback = False, Timeout = 0, Wait = False,
                               DisableImageVolume = False, DisableLoadbalancer = False\<rparr>,
                K3sOptions = \<lparr>ExtraArgs = []\<rparr>,
                KubeconfigOptions =
                  \<lparr>SwitchCurrentContext = False, UpdateDefaultKubeconfig = False\<rparr>,
                Runtime = \<lparr>AgentsMemory = '''', GPURequest = '''', ServersMemory = '''',
                            Labels = labels\<rparr>\<rparr>,
             Registries = \<lparr>Config = '''', Create = None, Use = []\<rparr>\<rparr> in
      case expandConfigOptionsK3s (k3s d) of
        Inl p \<Rightarrow> (Inl p, s1)
      | Inr k3sOptions \<Rightarrow>
     (let simpleConfig = simpleConfig
            \<lparr>Options :=
               \<lparr>K3dOptions = expandConfigOptionsK3d (k3d d),
                K3sOptions = k3sOptions,
                KubeconfigOptions = expandConfigOptionsKubeconfig (kubeconfig d),
                Runtime = expandConfigOptionsRuntime (runtime d)\<rparr>\<rparr> in
      case expandRegistries (registries d) of
        Inl p \<Rightarrow> (Inl p, s1)
      | Inr regs \<Rightarrow> (Inr (simpleConfig\<lparr>Registries := regs\<rparr>), s1)))))))"

text \<open>The transform, process and validate steps of \<^verbatim>\<open>resourceClusterCreate\<close>: each error
  is returned with \<^verbatim>\<open>diag.FromErr\<close>.\<close>

definition prepareClusterConfig ::
  "'w k3d_lib \<Rightarrow> SimpleConfig \<Rightarrow> 'w proc \<Rightarrow> (Diagnostics + ClusterConfig) \<times> 'w proc" where
  "prepareClusterConfig k simpleConfig s =
     (case invoke (Call_TransformSimpleToClusterConfig simpleConfig) sum_err
             (TransformSimpleToClusterConfig k simpleConfig) s of
        (Inl e, s1) \<Rightarrow> (Inl (FromErr e), s1)
      | (Inr clusterConfig, s1) \<Rightarrow>
     (case invoke (Call_ProcessClusterConfig clusterConfig) sum_err
             (ProcessClusterConfig k clusterConfig) s1 of
        (Inl e, s2) \<Rightarrow> (Inl (FromErr e), s2)
      | (Inr clusterConfig, s2) \<Rightarrow>
     (case invoke (Call_ValidateClusterConfig clusterConfig) id
             (ValidateClusterConfig k clusterConfig) s2 of
        (Some e, s3) \<Rightarrow> (Inl (FromErr e), s3)
      | (None, s3) \<Rightarrow> (Inr clusterConfig, s3))))"

text \<open>
  The existence check and the creation of \<^verbatim>\<open>resourceClusterCreate\<close>, with the rollback.
  \<open>None\<close> is the way on (the cluster runs); \<open>Some\<close> is what the function returns.
\<close>

definition already_exists_text :: string where
  "already_exists_text =
     ''Failed to create cluster because a cluster with that name already exists''"

definition rollback_failed_text :: string where
  "rollback_failed_text = ''Cluster creation FAILED, also FAILED to rollback changes!''"

definition createCluster ::
  "'w k3d_lib \<Rightarrow> string \<Rightarrow> ClusterConfig \<Rightarrow> 'w proc \<Rightarrow> Diagnostics option \<times> 'w proc" where
  "createCluster k clusterName clusterConfig s =
     (case invoke (Call_ClusterGet (Config_Cluster clusterConfig)) sum_err
             (ClusterGet k (Config_Cluster clusterConfig)) s of
        (Inr _, s1) \<Rightarrow> (Some (Errorf already_exists_text), s1)
      | (Inl _, s1) \<Rightarrow>
     (case invoke (Call_ClusterRun clusterConfig) id (ClusterRun k clusterConfig) s1 of
        (Some e, s2) \<Rightarrow>
          (let target = named_cluster clusterName;
               opts = \<lparr>SkipRegistryCheck = False\<rparr> in
           case invoke (Call_ClusterDelete target opts) id (ClusterDelete k target opts) s2 of
             (Some deleteErr, s3) \<Rightarrow> (Some (Errorf rollback_failed_text), s3)
           | (None, s3) \<Rightarrow> (Some (FromErr e), s3))
      | (None, s2) \<Rightarrow> (None, s2)))"

text \<open>The update of the default kubeconfig in \<^verbatim>\<open>resourceClusterCreate\<close>: an error is
  logged, nothing is returned.\<close>

definition updateDefaultKubeconfig ::
  "'w k3d_lib \<Rightarrow> SimpleConfig \<Rightarrow> ClusterConfig \<Rightarrow> 'w proc \<Rightarrow> 'w proc" where
  "updateDefaultKubeconfig k simpleConfig clusterConfig s =
     (if UpdateDefaultKubeconfig (KubeconfigOpts clusterConfig) then
        (let opts = \<lparr>UpdateExisting = True, OverwriteExisting = False,
                     UpdateCurrentContext =
                       SwitchCurrentContext (KubeconfigOptions (Options simpleConfig))\<rparr> in
         case invoke (Call_KubeconfigGetWrite (Config_Cluster clusterConfig) '''' opts) sum_err
                (KubeconfigGetWrite k (Config_Cluster clusterConfig) '''' opts) s of
           (Inl e, s1) \<Rightarrow> log_warn e s1
         | (Inr _, s1) \<Rightarrow> s1)
      else s)"

text \<open>\<^verbatim>\<open>flattenCredentials\<close>: \<^verbatim>\<open>clientcmd.Write\<close> runs first, its error is dropped (the
  bytes are then nil, the empty string) and its panic is the panic of the function; then
  the two map reads give pointers, dereferenced unchecked.\<close>

definition flattenCredentials ::
  "'w k3d_lib \<Rightarrow> string \<Rightarrow> KubeConfig \<Rightarrow> panic + Credentials list" where
  "flattenCredentials k clusterName kc =
     (let clusterID = DefaultObjectNamePrefix k @ ''-'' @ clusterName;
          authInfoName = ''admin@'' @ DefaultObjectNamePrefix k @ ''-'' @ clusterName in
      case Write k kc of
        Inl p \<Rightarrow> Inl p
      | Inr written \<Rightarrow>
     (let raw_bytes = (case written of Inl _ \<Rightarrow> '''' | Inr r \<Rightarrow> r) in
      case map_read (AuthInfos kc) authInfoName of
        None \<Rightarrow> Inl NilPointerDereference
      | Some authInfo \<Rightarrow>
     (case map_read (Clusters kc) clusterID of
        None \<Rightarrow> Inl NilPointerDereference
      | Some kubeCluster \<Rightarrow>
          Inr [\<lparr>client_certificate = ClientCertificateData authInfo,
                client_key = ClientKeyData authInfo,
                cluster_ca_certificate = CertificateAuthorityData kubeCluster,
                credentials_host = Server kubeCluster,
                raw = raw_bytes\<rparr>])))"

text \<open>\<^verbatim>\<open>resourceClusterRead\<close>. It never calls \<^verbatim>\<open>d.SetId\<close>.\<close>

definition resourceClusterRead ::
  "'w k3d_lib \<Rightarrow> ClusterData \<Rightarrow> 'w proc \<Rightarrow> (panic + Diagnostics) \<times> ClusterData \<times> 'w proc" where
  "resourceClusterRead k d s =
     (let clusterName = name d;
          target = named_cluster clusterName in
      case invoke (Call_ClusterGet target) sum_err (ClusterGet k target) s of
        (Inl e, s1) \<Rightarrow> (Inr (FromErr e), d, s1)
      | (Inr cl, s1) \<Rightarrow>
     (case invoke (Call_Set ''network'') id (d_Set k ''network'') s1 of
        (Some e, s2) \<Rightarrow> (Inr (FromErr e), d, s2)
      | (None, s2) \<Rightarrow>
     (let d1 = d\<lparr>network := Cluster_Network_Name cl\<rparr> in
      case invoke (Call_Set ''token'') id (d_Set k ''token'') s2 of
        (Some e, s3) \<Rightarrow> (Inr (FromErr e), d1, s3)
      | (None, s3) \<Rightarrow>
     (let d2 = d1\<lparr>token := Cluster_Token cl\<rparr> in
      case invoke (Call_KubeconfigGet cl) sum_err (KubeconfigGet k cl) s3 of
        (Inl e, s4) \<Rightarrow> (Inr [], d2, log_warn e s4)
      | (Inr kc, s4) \<Rightarrow>
     (case flattenCredentials k clusterName kc of
        Inl p \<Rightarrow> (Inl p, d2, s4)
      | Inr creds \<Rightarrow>
     (case invoke (Call_Set ''credentials'') id (d_Set k ''credentials'') s4 of
        (Some e, s5) \<Rightarrow> (Inr (FromErr e), d2, s5)
      | (None, s5) \<Rightarrow> (Inr [], d2\<lparr>credentials := creds\<rparr>, s5)))))))"

text \<open>\<^verbatim>\<open>resourceClusterCreate\<close>, from its four parts; the identity is the cluster name.\<close>

definition resourceClusterCreate ::
  "'w k3d_lib \<Rightarrow> ClusterData \<Rightarrow> 'w proc \<Rightarrow> (panic + Diagnostics) \<times> ClusterData \<times> 'w proc" where
  "resourceClusterCreate k d s =
     (let clusterName = name d in
      case expandSimpleConfig k d s of
        (Inl p, s1) \<Rightarrow> (Inl p, d, s1)
      | (Inr simpleConfig, s1) \<Rightarrow>
     (case prepareClusterConfig k simpleConfig s1 of
        (Inl diags, s2) \<Rightarrow> (Inr diags, d, s2)
      | (Inr clusterConfig, s2) \<Rightarrow>
     (case createCluster k clusterName clusterConfig s2 of
        (Some diags, s3) \<Rightarrow> (Inr diags, d, s3)
      | (None, s3) \<Rightarrow>
          resourceClusterRead k (SetId clusterName d)
            (updateDefaultKubeconfig k simpleConfig clusterConfig s3))))"

text \<open>\<^verbatim>\<open>resourceClusterDelete\<close>.\<close>

definition resourceClusterDelete ::
  "'w k3d_lib \<Rightarrow> ClusterData \<Rightarrow> 'w proc \<Rightarrow> (panic + Diagnostics) \<times> ClusterData \<times> 'w proc" where
  "resourceClusterDelete k d s =
     (let clusterName = name d;
          target = named_cluster clusterName;
          opts = \<lparr>SkipRegistryCheck = False\<rparr> in
      case invoke (Call_ClusterDelete target opts) id (ClusterDelete k target opts) s of
        (Some e, s1) \<Rightarrow> (Inr (FromErr e), d, s1)
      | (None, s1) \<Rightarrow> (Inr [], d, s1))"

text \<open>\<^verbatim>\<open>dataSourceClusterRead\<close>: the identity is set first; an error of
  \<^verbatim>\<open>clientcmd.Write\<close> is logged, and the result of \<^verbatim>\<open>d.Set\<close> for the kubeconfig is not
  looked at.\<close>

definition dataSourceClusterRead ::
  "'w k3d_lib \<Rightarrow> ClusterSourceData \<Rightarrow> 'w proc
     \<Rightarrow> (panic + Diagnostics) \<times> ClusterSourceData \<times> 'w proc" where
  "dataSourceClusterRead k d0 s =
     (let clusterName = name d0;
          d = SetId clusterName d0;
          target = named_cluster clusterName in
      case invoke (Call_ClusterGet target) sum_err (ClusterGet k target) s of
        (Inl e, s1) \<Rightarrow> (Inr (FromErr e), d, s1)
      | (Inr cl, s1) \<Rightarrow>
     (case invoke (Call_Set ''network'') id (d_Set k ''network'') s1 of
        (Some e, s2) \<Rightarrow> (Inr (FromErr e), d, s2)
      | (None, s2) \<Rightarrow>
     (let d1 = d\<lparr>source_network := Cluster_Network_Name cl\<rparr> in
      case invoke (Call_Set ''token'') id (d_Set k ''token'') s2 of
        (Some e, s3) \<Rightarrow> (Inr (FromErr e), d1, s3)
      | (None, s3) \<Rightarrow>
     (let d2 = d1\<lparr>source_token := Cluster_Token cl\<rparr> in
      case invoke (Call_KubeconfigGet cl) sum_err (KubeconfigGet k cl) s3 of
        (Inl e, s4) \<Rightarrow> (Inr [], d2, log_warn e s4)
      | (Inr kc, s4) \<Rightarrow>
     (case Write k kc of
        Inl p \<Rightarrow> (Inl p, d2, s4)
      | Inr (Inl e) \<Rightarrow> (Inr [], d2, log_warn e s4)
      | Inr (Inr r) \<Rightarrow>
     (case invoke (Call_Set ''kubeconfig_raw'') id (d_Set k ''kubeconfig_raw'') s4 of
        (Some _, s5) \<Rightarrow> (Inr [], d2, s5)
      | (None, s5) \<Rightarrow> (Inr [], d2\<lparr>kubeconfig_raw := r\<rparr>, s5)))))))"

section \<open>The node resource\<close>

text \<open>\<^verbatim>\<open>resourceNodeRead\<close>.\<close>

definition resourceNodeRead ::
  "'w k3d_lib \<Rightarrow> NodeData \<Rightarrow> 'w proc \<Rightarrow> Diagnostics \<times> NodeData \<times> 'w proc" where
  "resourceNodeRead k d s =
     (let nodeName = name d;
          nodeID = DefaultObjectNamePrefix k @ ''-'' @ nodeName in
      case invoke (Call_NodeGet (named_node nodeID)) sum_err (NodeGet k (named_node nodeID)) s of
        (Inl e, s1) \<Rightarrow> (FromErr e, d, s1)
      | (Inr _, s1) \<Rightarrow> ([], d, s1))"

text \<open>\<^verbatim>\<open>resourceNodeCreate\<close>.\<close>

definition resourceNodeCreate ::
  "'w k3d_lib \<Rightarrow> NodeData \<Rightarrow> 'w proc \<Rightarrow> Diagnostics \<times> NodeData \<times> 'w proc" where
  "resourceNodeCreate k d s =
     (let clusterName = cluster d;
          nodeName = name d;
          nodeID = DefaultObjectNamePrefix k @ ''-'' @ nodeName;
          node = \<lparr>Node_Name = nodeID,
                  Node_Role = map_index (NodeRoles k) (role d),
                  Node_Image = node_image d,
                  K3sNodeLabels = [(LabelRole k, role d)],
                  Restart = True,
                  Memory = memory d\<rparr> in
      case invoke (Call_NodeAddToCluster node (named_cluster clusterName)) id
             (NodeAddToCluster k node (named_cluster clusterName)) s of
        (Some e, s1) \<Rightarrow> (FromErr e, d, s1)
      | (None, s1) \<Rightarrow> resourceNodeRead k (SetId nodeID d) s1)"

text \<open>\<^verbatim>\<open>resourceNodeDelete\<close>.\<close>

definition resourceNodeDelete ::
  "'w k3d_lib \<Rightarrow> NodeData \<Rightarrow> 'w proc \<Rightarrow> Diagnostics \<times> NodeData \<times> 'w proc" where
  "resourceNodeDelete k d s =
     (let nodeName = name d;
          nodeID = DefaultObjectNamePrefix k @ ''-'' @ nodeName in
      case invoke (Call_NodeDelete (named_node nodeID)) id (NodeDelete k (named_node nodeID)) s of
        (Some e, s1) \<Rightarrow> (FromErr e, d, s1)
      | (None, s1) \<Rightarrow> ([], d, s1))"

text \<open>\<^verbatim>\<open>dataSourceNodeRead\<close>: the identity is set before the node is looked up.\<close>

definition dataSourceNodeRead ::
  "'w k3d_lib \<Rightarrow> NodeData \<Rightarrow> 'w proc \<Rightarrow> Diagnostics \<times> NodeData \<times> 'w proc" where
  "dataSourceNodeRead k d0 s =
     (let nodeName = name d0;
          nodeID = DefaultObjectNamePrefix k @ ''-'' @ nodeName;
          d = SetId nodeID d0 in
      case invoke (Call_NodeGet (named_node nodeID)) sum_err (NodeGet k (named_node nodeID)) s of
        (Inl e, s1) \<Rightarrow> (FromErr e, d, s1)
      | (Inr node, s1) \<Rightarrow>
     (case invoke (Call_Set ''cluster'') id (d_Set k ''cluster'') s1 of
        (Some e, s2) \<Rightarrow> (FromErr e, d, s2)
      | (None, s2) \<Rightarrow>
     (let d1 = d\<lparr>cluster := map_index (K3sNodeLabels node) (LabelClusterName k)\<rparr> in
      case invoke (Call_Set ''role'') id (d_Set k ''role'') s2 of
        (Some e, s3) \<Rightarrow> (FromErr e, d1, s3)
      | (None, s3) \<Rightarrow> ([], d1\<lparr>role := Node_Role node\<rparr>, s3))))"

section \<open>The registry resource\<close>

text \<open>\<^verbatim>\<open>expandExposureOpts\<close> of the registry.\<close>

definition expandExposureOpts ::
  "'w k3d_lib \<Rightarrow> exposure_block option list \<Rightarrow> 'w proc \<Rightarrow> ExposureOpts \<times> 'w proc" where
  "expandExposureOpts k l s =
     (let (fp, s1) = invoke Call_GetFreePort snd (GetFreePort k) s;
          freePort = fst fp in
      if length l = 0 \<or> hd l = None
      then (\<lparr>PortMapping_Port = DefaultRegistryPort k, Binding_HostIP = '''',
             Binding_HostPort = fmt_d freePort\<rparr>, s1)
      else (let v = the (hd l);
                hostPort = host_port v;
                hostPort = (if hostPort = 0 then freePort else hostPort) in
            (\<lparr>PortMapping_Port = DefaultRegistryPort k, Binding_HostIP = host_ip v,
              Binding_HostPort = fmt_d hostPort\<rparr>, s1)))"

text \<open>\<^verbatim>\<open>resourceRegistryRead\<close>: the registry is looked up as a node.\<close>

definition resourceRegistryRead ::
  "'w k3d_lib \<Rightarrow> RegistryData \<Rightarrow> 'w proc
     \<Rightarrow> (panic + Diagnostics) \<times> RegistryData \<times> 'w proc" where
  "resourceRegistryRead k d s =
     (let registryName = name d;
          registryID = DefaultObjectNamePrefix k @ ''-'' @ registryName in
      case invoke (Call_NodeGet (named_node registryID)) sum_err
             (NodeGet k (named_node registryID)) s of
        (Inl e, s1) \<Rightarrow> (Inr (FromErr e), d, s1)
      | (Inr _, s1) \<Rightarrow> (Inr [], d, s1))"

text \<open>\<^verbatim>\<open>resourceRegistryCreate\<close>, in the version with volumes and a proxy (the other
  version in the file is the same without these two fields).\<close>

definition resourceRegistryCreate ::
  "'w k3d_lib \<Rightarrow> RegistryData \<Rightarrow> 'w proc
     \<Rightarrow> (panic + Diagnostics) \<times> RegistryData \<times> 'w proc" where
  "resourceRegistryCreate k d s =
     (let registryName = name d;
          registryID = DefaultObjectNamePrefix k @ ''-'' @ registryName;
          (exposureOpts, s1) = expandExposureOpts k (registry_port d) s in
      case expandRegistryVolumes (registry_volume d) of
        Inl p \<Rightarrow> (Inl p, d, s1)
      | Inr volumes \<Rightarrow>
     (let registry = \<lparr>Registry_ExposureOpts = exposureOpts,
                      Registry_Host = registryID,
                      Registry_Image = registry_image d,
                      Registry_Volumes = volumes,
                      Registry_Options_Proxy =
                        \<lparr>RemoteURL = proxy_remote_url d,
                         Username = proxy_username d,
                         Password = proxy_password d\<rparr>\<rparr> in
      case invoke (Call_RegistryRun registry) sum_err (RegistryRun k registry) s1 of
        (Inl e, s2) \<Rightarrow> (Inr (FromErr e), d, s2)
      | (Inr _, s2) \<Rightarrow> resourceRegistryRead k (SetId registryID d) s2))"

text \<open>\<^verbatim>\<open>resourceRegistryDelete\<close>.\<close>

definition resourceRegistryDelete ::
  "'w k3d_lib \<Rightarrow> RegistryData \<Rightarrow> 'w proc
     \<Rightarrow> (panic + Diagnostics) \<times> RegistryData \<times> 'w proc" where
  "resourceRegistryDelete k d s =
     (let registryName = name d;
          registryID = DefaultObjectNamePrefix k @ ''-'' @ registryName in
      case invoke (Call_NodeDelete (named_node registryID)) id
             (NodeDelete k (named_node registryID)) s of
        (Some e, s1) \<Rightarrow> (Inr (FromErr e), d, s1)
      | (None, s1) \<Rightarrow> (Inr [], d, s1))"

text \<open>\<^verbatim>\<open>dataSourceRegistryRead\<close>.\<close>

definition dataSourceRegistryRead ::
  "'w k3d_lib \<Rightarrow> ResourceData \<Rightarrow> 'w proc \<Rightarrow> Diagnostics \<times> ResourceData \<times> 'w proc" where
  "dataSourceRegistryRead k d0 s =
     (let registryName = name d0;
          registryID = DefaultObjectNamePrefix k @ ''-'' @ registryName;
          d = SetId registryID d0 in
      case invoke (Call_NodeGet (named_node registryID)) sum_err
             (NodeGet k (named_node registryID)) s of
        (Inl e, s1) \<Rightarrow> (FromErr e, d, s1)
      | (Inr _, s1) \<Rightarrow> ([], d, s1))"

section \<open>A small runtime to run the operations on\<close>

text \<open>
  A runtime that keeps the names of the clusters and nodes it runs, with switches for the
  calls that are to fail. The operations are run on it at concrete inputs.
\<close>

record sim =
  sim_clusters :: "string list"
  sim_nodes :: "string list"
  sim_run_error :: "err option"
  sim_delete_error :: "err option"
  sim_kubeconfig_error :: "err option"
  sim_kubeconfig_entries :: bool
  sim_set_error :: "err option"
  sim_lookup_error :: "err option"
  sim_free_port :: int

definition sim_kubeconfig :: "sim \<Rightarrow> Cluster \<Rightarrow> err + KubeConfig" where
  "sim_kubeconfig w c =
     (case sim_kubeconfig_error w of
        Some e \<Rightarrow> Inl e
      | None \<Rightarrow>
          Inr (if sim_kubeconfig_entries w
               then \<lparr>AuthInfos = [''admin@k3d-'' @ Cluster_Name c \<mapsto>
                                   Some \<lparr>ClientCertificateData = ''cert'',
                                         ClientKeyData = ''key''\<rparr>],
                     Clusters = [''k3d-'' @ Cluster_Name c \<mapsto>
                                   Some \<lparr>CertificateAuthorityData = ''ca'',
                                         Server = ''https://0.0.0.0:6443''\<rparr>]\<rparr>
               else \<lparr>AuthInfos = Map.empty, Clusters = Map.empty\<rparr>))"

definition sim_k3d :: "sim k3d_lib" where
  "sim_k3d =
     \<lparr>DefaultObjectNamePrefix = ''k3d'',
      DefaultRegistryPort = ''5000'',
      LabelRole = ''k3d.role'',
      LabelClusterName = ''k3d.cluster'',
      NodeRoles = [(''server'', ''server''), (''agent'', ''agent'')],
      GetFreePort = (\<lambda>w. ((sim_free_port w, None), w)),
      TransformSimpleToClusterConfig = (\<lambda>sc w.
        (Inr \<lparr>Config_Cluster = \<lparr>Cluster_Name = Name sc, Cluster_Network_Name = Network sc,
                                Cluster_Token = ClusterToken sc\<rparr>,
              KubeconfigOpts = KubeconfigOptions (Options sc)\<rparr>, w)),
      ProcessClusterConfig = (\<lambda>cc w. (Inr cc, w)),
      ValidateClusterConfig = (\<lambda>cc w.
        (if Cluster_Name (Config_Cluster cc) = [] then Some ''cluster name must not be empty''
         else None, w)),
      ClusterGet = (\<lambda>c w.
        (case sim_lookup_error w of
           Some e \<Rightarrow> Inl e
         | None \<Rightarrow>
             if Cluster_Name c \<in> set (sim_clusters w)
             then Inr \<lparr>Cluster_Name = Cluster_Name c,
                       Cluster_Network_Name = ''k3d-'' @ Cluster_Name c,
                       Cluster_Token = ''secret''\<rparr>
             else Inl ''No nodes found for given cluster'', w)),
      ClusterRun = (\<lambda>cc w.
        (case sim_run_error w of
           Some e \<Rightarrow> (Some e, w)
         | None \<Rightarrow>
             (None, w\<lparr>sim_clusters := Cluster_Name (Config_Cluster cc) # sim_clusters w\<rparr>))),
      ClusterDelete = (\<lambda>c opts w.
        (case sim_delete_error w of
           Some e \<Rightarrow> (Some e, w)
         | None \<Rightarrow> (None, w\<lparr>sim_clusters := removeAll (Cluster_Name c) (sim_clusters w)\<rparr>))),
      KubeconfigGetWrite = (\<lambda>c path opts w. (sim_kubeconfig w c, w)),
      KubeconfigGet = (\<lambda>c w. (sim_kubeconfig w c, w)),
      Write = (\<lambda>kc. Inr (Inr ''apiVersion: v1'')),
      NodeAddToCluster = (\<lambda>n c w.
        (if Cluster_Name c \<in> set (sim_clusters w)
         then (None, w\<lparr>sim_nodes := Node_Name n # sim_nodes w\<rparr>)
         else (Some ''Failed to find specified cluster'', w))),
      NodeGet = (\<lambda>n w.
        (case sim_lookup_error w of
           Some e \<Rightarrow> Inl e
         | None \<Rightarrow> if Node_Name n \<in> set (sim_nodes w) then Inr n else Inl ''No node found'',
         w)),
      NodeDelete = (\<lambda>n w.
        (if Node_Name n \<in> set (sim_nodes w)
         then (None, w\<lparr>sim_nodes := removeAll (Node_Name n) (sim_nodes w)\<rparr>)
         else (Some ''No node found'', w))),
      RegistryRun = (\<lambda>r w.
        (if Registry_Host r \<in> set (sim_nodes w)
         then (Inl ''Failed to create registry: name in use'', w)
         else (Inr (named_node (Registry_Host r)),
               w\<lparr>sim_nodes := Registry_Host r # sim_nodes w\<rparr>))),
      d_Set = (\<lambda>key w. (sim_set_error w, w))\<rparr>"

definition sim_world :: sim where
  "sim_world =
     \<lparr>sim_clusters = [], sim_nodes = [], sim_run_error = None, sim_delete_error = None,
      sim_kubeconfig_error = None, sim_kubeconfig_entries = True, sim_set_error = None,
      sim_lookup_error = None, sim_free_port = 43210\<rparr>"

definition start :: "'w \<Rightarrow> 'w proc" where
  "start w = \<lparr>world = w, trace = [], logged = []\<rparr>"

text \<open>The cluster of the acceptance tests: \<^verbatim>\<open>name = "bar"\<close>, everything else unset (the
  schema defaults: no agents, one server).\<close>

definition bar_cluster :: ClusterData where
  "bar_cluster =
     \<lparr>ResourceId = '''', name = ''bar'', agents = 0, credentials = [], env = [],
      cluster_image = ''rancher/k3s:stable'', k3d = [], k3s = [], kube_api = [],
      kubeconfig = [], label = [], network = '''', port = [], registries = [],
      runtime = [], servers = 1, token = '''', volume = []\<rparr>"

definition nameless_cluster :: ClusterData where
  "nameless_cluster = bar_cluster\<lparr>name := []\<rparr>"

definition bar_node :: NodeData where
  "bar_node =
     \<lparr>ResourceId = '''', name = ''bar'', cluster = ''bar'',
      node_image = ''rancher/k3s:stable'', memory = '''', role = ''agent''\<rparr>"

definition bar_registry :: RegistryData where
  "bar_registry =
     \<lparr>ResourceId = '''', name = ''bar'', registry_image = ''registry:2'', registry_port = [],
      proxy_remote_url = '''', proxy_username = '''', proxy_password = '''',
      registry_volume = []\<rparr>"

section \<open>Reading the trace of an operation\<close>

text \<open>The calls that create a resource in the runtime, and the calls that change the
  outside world at all.\<close>

fun creates :: "call \<Rightarrow> bool" where
  "creates (Call_ClusterRun _) = True"
| "creates (Call_NodeAddToCluster _ _) = True"
| "creates (Call_RegistryRun _) = True"
| "creates _ = False"

fun mutates :: "call \<Rightarrow> bool" where
  "mutates (Call_ClusterRun _) = True"
| "mutates (Call_ClusterDelete _ _) = True"
| "mutates (Call_KubeconfigGetWrite _ _ _) = True"
| "mutates (Call_NodeAddToCluster _ _) = True"
| "mutates (Call_NodeDelete _) = True"
| "mutates (Call_RegistryRun _) = True"
| "mutates _ = False"

text \<open>A call that writes a kubeconfig does so with \<^verbatim>\<open>UpdateExisting: true\<close> and
  \<^verbatim>\<open>OverwriteExisting: false\<close>; any other call passes.\<close>

fun merges :: "call \<Rightarrow> bool" where
  "merges (Call_KubeconfigGetWrite _ _ opts) = (UpdateExisting opts \<and> \<not> OverwriteExisting opts)"
| "merges _ = True"

text \<open>The two calls that fetch a kubeconfig.\<close>

fun kubeconfig_call :: "call \<Rightarrow> bool" where
  "kubeconfig_call (Call_KubeconfigGetWrite _ _ _) = True"
| "kubeconfig_call (Call_KubeconfigGet _) = True"
| "kubeconfig_call _ = False"

text \<open>Every diagnostic is an error whose summary is the text of an error returned by a
  call that does not fetch a kubeconfig.\<close>

definition not_from_kubeconfig :: "(call \<times> err option) list \<Rightarrow> Diagnostics \<Rightarrow> bool" where
  "not_from_kubeconfig tr diags =
     list_all (\<lambda>dg. list_ex (\<lambda>ev. \<not> kubeconfig_call (fst ev) \<and> snd ev = Some (Summary dg)) tr)
       diags"

text \<open>The create call of the resource was issued and returned no error.\<close>

definition create_succeeded :: "(call \<times> err option) list \<Rightarrow> bool" where
  "create_succeeded tr = list_ex (\<lambda>ev. creates (fst ev) \<and> snd ev = None) tr"

text \<open>Every diagnostic is an error whose summary is the text of an error that one of the
  calls returned.\<close>

definition propagated :: "(call \<times> err option) list \<Rightarrow> Diagnostics \<Rightarrow> bool" where
  "propagated tr diags =
     list_all (\<lambda>dg. Severity dg = Error \<and> list_ex (\<lambda>ev. snd ev = Some (Summary dg)) tr) diags"

text \<open>The volume and the port of the README, and a volume without a source.\<close>

definition readme_volumes :: "volume_block list" where
  "readme_volumes =
     [\<lparr>source = ''/my/host/path'', destination = ''/path/in/node'',
       volume_node_filters = [Some ''server[0]'', Some ''agent[*]'']\<rparr>,
      \<lparr>source = [], destination = ''/data'', volume_node_filters = []\<rparr>]"

definition readme_ports :: "port_block list" where
  "readme_ports =
     [\<lparr>port_host = ''localhost'', port_host_port = 8080, container_port = 80,
       protocol = ''TCP'', port_node_filters = [Some ''loadbalancer'']\<rparr>]"

text \<open>A port block with only the required \<^verbatim>\<open>container_port\<close>: host, host port and
  protocol read as their zero values.\<close>

definition bare_port :: port_block where
  "bare_port =
     \<lparr>port_host = [], port_host_port = 0, container_port = 80, protocol = [],
      port_node_filters = []\<rparr>"

text \<open>A \<^verbatim>\<open>registries\<close> block that creates a registry and leaves \<^verbatim>\<open>host_port\<close> out.\<close>

definition registries_without_port :: registries_block where
  "registries_without_port =
     \<lparr>config = [],
      create = [Some \<lparr>create_name = ''myregistry'', create_host = [], create_image = [],
                      create_host_port = []\<rparr>],
      use = []\<rparr>"

definition bar_cluster_with_registry :: ClusterData where
  "bar_cluster_with_registry = bar_cluster\<lparr>registries := [Some registries_without_port]\<rparr>"

text \<open>Worlds in which the cluster \<open>bar\<close> runs already, in which the runtime returns a
  kubeconfig without entries, and in which calls fail.\<close>

definition sim_bar_running :: sim where
  "sim_bar_running = sim_world\<lparr>sim_clusters := [''bar'']\<rparr>"

definition sim_no_entries :: sim where
  "sim_no_entries = sim_world\<lparr>sim_clusters := [''bar''], sim_kubeconfig_entries := False\<rparr>"

definition sim_run_fails :: sim where
  "sim_run_fails = sim_world\<lparr>sim_run_error := Some ''Failed Cluster Start''\<rparr>"

definition sim_rollback_fails :: sim where
  "sim_rollback_fails =
     sim_world\<lparr>sim_run_error := Some ''Failed Cluster Start'',
                sim_delete_error := Some ''docker failed to remove volume''\<rparr>"

definition sim_registry_running :: sim where
  "sim_registry_running = sim_world\<lparr>sim_nodes := [''k3d-bar'']\<rparr>"

definition sim_kubeconfig_fails :: sim where
  "sim_kubeconfig_fails = sim_world\<lparr>sim_kubeconfig_error := Some ''no kubeconfig''\<rparr>"

text \<open>The cluster \<open>bar\<close> asking for the update of the default kubeconfig.\<close>

definition bar_cluster_syncing :: ClusterData where
  "bar_cluster_syncing =
     bar_cluster\<lparr>kubeconfig :=
       [Some \<lparr>update_default_kubeconfig = True, switch_current_context = True\<rparr>]\<rparr>"

text \<open>A world in which the runtime cannot be asked for a cluster or a node: every lookup
  fails.\<close>

definition sim_lookup_fails :: sim where
  "sim_lookup_fails =
     sim_world\<lparr>sim_lookup_error := Some ''Cannot connect to the Docker daemon''\<rparr>"

text \<open>The same with the cluster \<open>bar\<close> running, so that a node can be added to it.\<close>

definition sim_bar_running_lookup_fails :: sim where
  "sim_bar_running_lookup_fails = sim_lookup_fails\<lparr>sim_clusters := [''bar'']\<rparr>"

text \<open>A world in which the host refuses to write an attribute.\<close>

definition sim_set_fails :: sim where
  "sim_set_fails = sim_world\<lparr>sim_set_error := Some ''Invalid address to set''\<rparr>"

text \<open>The world after the cluster \<open>bar\<close> was started while the kubeconfig cannot be had.\<close>

definition sim_bar_started_kubeconfig_fails :: sim where
  "sim_bar_started_kubeconfig_fails = sim_kubeconfig_fails\<lparr>sim_clusters := [''bar'']\<rparr>"

text \<open>A runtime whose transform gives a cluster submitted without a name the name
  \<open>k3s-default\<close>, and is the runtime above in everything else.\<close>

definition sim_k3d_defaulting :: "sim k3d_lib" where
  "sim_k3d_defaulting =
     sim_k3d\<lparr>TransformSimpleToClusterConfig := (\<lambda>sc w.
       (Inr \<lparr>Config_Cluster =
               \<lparr>Cluster_Name = (if Name sc = [] then ''k3s-default'' else Name sc),
                Cluster_Network_Name = Network sc,
                Cluster_Token = ClusterToken sc\<rparr>,
             KubeconfigOpts = KubeconfigOptions (Options sc)\<rparr>, w))\<rparr>"

section \<open>Facts about the expanders\<close>


lemma range_append_Inr:
  "range_append f l = Inr ys \<Longrightarrow> list_all2 (\<lambda>x y. f x = Inr y) l ys"
  by (induction l arbitrary: ys) (auto split: sum.splits)

lemma range_append_map:
  assumes "range_append f (map Some bs) = Inr ys"
    and "\<And>b y. f (Some b) = Inr y \<Longrightarrow> g y = h b"
  shows "map g ys = map h bs"
  using assms
proof (induction bs arbitrary: ys)
  case Nil
  then show ?case by simp
next
  case (Cons b bs)
  then show ?case by (auto split: sum.splits)
qed

lemma expandVolume_Some:
  "expandVolume (Some v) = Inr y \<Longrightarrow> Volume y = volume_string (source v) (destination v)"
  by (auto simp: expandVolume_def assert_elem_def Let_def split: sum.splits)

lemma expandPort_Some:
  "expandPort (Some v) = Inr y \<Longrightarrow> Port y = port_string v"
  by (auto simp: expandPort_def assert_elem_def Let_def split: sum.splits)

lemma expandVolumes_map:
  "expandVolumes (map Some bs) = Inr vs \<Longrightarrow>
   map Volume vs = map (\<lambda>v. volume_string (source v) (destination v)) bs"
  by (cases bs) (auto simp: expandVolumes_def dest!: expandVolume_Some split: sum.splits if_splits
      intro: range_append_map[where f = expandVolume])

lemma expandRegistryVolumes_map:
  "expandRegistryVolumes (map Some bs) =
     Inr (map (\<lambda>v. volume_string (registry_source v) (registry_destination v)) bs)"
proof -
  have "range_append expandRegistryVolume (map Some bs) =
     Inr (map (\<lambda>v. volume_string (registry_source v) (registry_destination v)) bs)"
    by (induction bs) (auto simp: expandRegistryVolume_def assert_elem_def)
  then show ?thesis by (cases bs) (auto simp: expandRegistryVolumes_def)
qed

lemma expandPorts_map:
  "expandPorts (map Some bs) = Inr ps \<Longrightarrow> map Port ps = map port_string bs"
  by (cases bs) (auto simp: expandPorts_def dest!: expandPort_Some split: sum.splits if_splits
      intro: range_append_map[where f = expandPort])

lemma fmt_d_0: "fmt_d 0 = ''0''"
  by (simp add: fmt_d_def digits.simps digit_char_def)


lemma range_append_total:
  "(\<And>x. x \<in> set l \<Longrightarrow> f x = Inr (g x)) \<Longrightarrow> range_append f l = Inr (map g l)"
  by (induction l) auto

lemma expandNodeFilters_total:
  assumes "None \<notin> set l"
  shows "expandNodeFilters l = Inr (map the l)"
proof (cases l)
  case Nil
  then show ?thesis by (simp add: expandNodeFilters_def)
next
  case (Cons a as)
  have "range_append assert_elem l = Inr (map the l)"
  proof (intro range_append_total)
    fix x assume "x \<in> set l"
    with assms have "x \<noteq> None" by metis
    then show "assert_elem x = Inr (the x)"
      by (cases x) (simp_all add: assert_elem_def)
  qed
  moreover from Cons assms have "hd l \<noteq> None" by (cases a) auto
  ultimately show ?thesis using Cons by (simp add: expandNodeFilters_def)
qed

lemma expandVolumes_total:
  assumes "\<forall>v\<in>set bs. None \<notin> set (volume_node_filters v)"
  shows "expandVolumes (map Some bs) =
     Inr (map (\<lambda>v. \<lparr>Volume = volume_string (source v) (destination v),
                     Volume_NodeFilters = map the (volume_node_filters v)\<rparr>) bs)"
proof -
  have "range_append expandVolume (map Some bs) =
     Inr (map (\<lambda>i. \<lparr>Volume = volume_string (source (the i)) (destination (the i)),
                     Volume_NodeFilters = map the (volume_node_filters (the i))\<rparr>) (map Some bs))"
    using assms
    by (intro range_append_total)
      (auto simp: expandVolume_def assert_elem_def Let_def expandNodeFilters_total)
  then show ?thesis
    by (cases bs) (simp_all add: expandVolumes_def comp_def)
qed

lemma expandPorts_total:
  assumes "\<forall>v\<in>set bs. None \<notin> set (port_node_filters v)"
  shows "expandPorts (map Some bs) =
     Inr (map (\<lambda>v. \<lparr>Port = port_string v,
                     Port_NodeFilters = map the (port_node_filters v)\<rparr>) bs)"
proof -
  have "range_append expandPort (map Some bs) =
     Inr (map (\<lambda>i. \<lparr>Port = port_string (the i),
                     Port_NodeFilters = map the (port_node_filters (the i))\<rparr>) (map Some bs))"
    using assms
    by (intro range_append_total)
      (auto simp: expandPort_def assert_elem_def expandNodeFilters_total)
  then show ?thesis
    by (cases bs) (simp_all add: expandPorts_def comp_def)
qed

text \<open>
  Claim C6. For every list of volume blocks of a cluster whose node filters hold no nil,
  \<^verbatim>\<open>expandVolumes\<close> returns one entry per block, with the string \<open>source:destination\<close>
  when the source is not empty and the destination alone otherwise; for every list of
  volume blocks of a registry \<^verbatim>\<open>expandRegistryVolumes\<close> returns these strings; for every
  list of port blocks whose node filters hold no nil, \<^verbatim>\<open>expandPorts\<close> returns one entry
  per block with the string \<open>host:hostPort:containerPort/protocol\<close>. Whatever the node
  filters are, a list that the cluster expanders return holds these strings. (A nil node
  filter after a first one that is not nil is a panic of the code; the lists are lists of
  blocks, without nil element.)
\<close>

theorem volume_and_port_wire_format:
  "((\<forall>v\<in>set vbs. None \<notin> set (volume_node_filters v)) \<longrightarrow>
      expandVolumes (map Some vbs) =
        Inr (map (\<lambda>v. \<lparr>Volume = (if source v \<noteq> [] then source v @ '':'' @ destination v
                                   else destination v),
                        Volume_NodeFilters = map the (volume_node_filters v)\<rparr>) vbs))
   \<and> (expandVolumes (map Some vbs) = Inr vs \<longrightarrow>
      map Volume vs =
        map (\<lambda>v. if source v \<noteq> [] then source v @ '':'' @ destination v else destination v) vbs)
   \<and> expandRegistryVolumes (map Some rbs) =
        Inr (map (\<lambda>v. if registry_source v \<noteq> []
                       then registry_source v @ '':'' @ registry_destination v
                       else registry_destination v) rbs)
   \<and> ((\<forall>v\<in>set pbs. None \<notin> set (port_node_filters v)) \<longrightarrow>
      expandPorts (map Some pbs) =
        Inr (map (\<lambda>v. \<lparr>Port = port_host v @ '':'' @ fmt_d (port_host_port v) @ '':''
                                 @ fmt_d (container_port v) @ ''/'' @ protocol v,
                        Port_NodeFilters = map the (port_node_filters v)\<rparr>) pbs))
   \<and> (expandPorts (map Some pbs) = Inr ps \<longrightarrow>
        map Port ps =
          map (\<lambda>v. port_host v @ '':'' @ fmt_d (port_host_port v) @ '':''
                    @ fmt_d (container_port v) @ ''/'' @ protocol v) pbs)"
proof (intro conjI impI)
  assume "\<forall>v\<in>set vbs. None \<notin> set (volume_node_filters v)"
  from expandVolumes_total[OF this]
  show "expandVolumes (map Some vbs) =
        Inr (map (\<lambda>v. \<lparr>Volume = (if source v \<noteq> [] then source v @ '':'' @ destination v
                                   else destination v),
                        Volume_NodeFilters = map the (volume_node_filters v)\<rparr>) vbs)"
    by (simp add: volume_string_def)
next
  assume "expandVolumes (map Some vbs) = Inr vs"
  from expandVolumes_map[OF this]
  show "map Volume vs =
        map (\<lambda>v. if source v \<noteq> [] then source v @ '':'' @ destination v else destination v) vbs"
    by (simp add: volume_string_def)
next
  show "expandRegistryVolumes (map Some rbs) =
        Inr (map (\<lambda>v. if registry_source v \<noteq> []
                       then registry_source v @ '':'' @ registry_destination v
                       else registry_destination v) rbs)"
    by (simp add: expandRegistryVolumes_map volume_string_def)
next
  assume "\<forall>v\<in>set pbs. None \<notin> set (port_node_filters v)"
  from expandPorts_total[OF this]
  show "expandPorts (map Some pbs) =
        Inr (map (\<lambda>v. \<lparr>Port = port_host v @ '':'' @ fmt_d (port_host_port v) @ '':''
                                 @ fmt_d (container_port v) @ ''/'' @ protocol v,
                        Port_NodeFilters = map the (port_node_filters v)\<rparr>) pbs)"
    by (simp add: port_string_def)
next
  assume "expandPorts (map Some pbs) = Inr ps"
  from expandPorts_map[OF this]
  show "map Port ps =
          map (\<lambda>v. port_host v @ '':'' @ fmt_d (port_host_port v) @ '':''
                    @ fmt_d (container_port v) @ ''/'' @ protocol v) pbs"
    by (simp add: port_string_def)
qed

lemma fmt_d_8080: "fmt_d 8080 = ''8080''"
  by (simp add: fmt_d_def digits.simps digit_char_def)

lemma fmt_d_80: "fmt_d 80 = ''80''"
  by (simp add: fmt_d_def digits.simps digit_char_def)

lemma readme_filters:
  "\<forall>v\<in>set readme_volumes. None \<notin> set (volume_node_filters v)"
  "\<forall>v\<in>set readme_ports. None \<notin> set (port_node_filters v)"
  by (simp_all add: readme_volumes_def readme_ports_def)

theorem volume_and_port_wire_format_witness:
  "list_all (\<lambda>v. None \<notin> set (volume_node_filters v)) readme_volumes
   \<and> expandVolumes (map Some readme_volumes) =
     Inr [\<lparr>Volume = ''/my/host/path:/path/in/node'',
           Volume_NodeFilters = [''server[0]'', ''agent[*]'']\<rparr>,
          \<lparr>Volume = ''/data'', Volume_NodeFilters = []\<rparr>]
   \<and> expandRegistryVolumes
        (map Some [\<lparr>registry_source = ''/srv/registry'',
                     registry_destination = ''/var/lib/registry''\<rparr>,
                   \<lparr>registry_source = [], registry_destination = ''/cache''\<rparr>])
        = Inr [''/srv/registry:/var/lib/registry'', ''/cache'']
   \<and> list_all (\<lambda>v. None \<notin> set (port_node_filters v)) readme_ports
   \<and> expandPorts (map Some readme_ports) =
        Inr [\<lparr>Port = ''localhost:8080:80/TCP'', Port_NodeFilters = [''loadbalancer'']\<rparr>]"
proof -
  note inst = volume_and_port_wire_format
    [where vbs = readme_volumes and pbs = readme_ports
       and rbs = "[\<lparr>registry_source = ''/srv/registry'',
                     registry_destination = ''/var/lib/registry''\<rparr>,
                   \<lparr>registry_source = [], registry_destination = ''/cache''\<rparr>]"
       and vs = "[]" and ps = "[]"]
  from inst readme_filters(1)
  have "expandVolumes (map Some readme_volumes) =
        Inr (map (\<lambda>v. \<lparr>Volume = (if source v \<noteq> [] then source v @ '':'' @ destination v
                                   else destination v),
                        Volume_NodeFilters = map the (volume_node_filters v)\<rparr>) readme_volumes)"
    by blast
  then have v: "expandVolumes (map Some readme_volumes) =
     Inr [\<lparr>Volume = ''/my/host/path:/path/in/node'',
           Volume_NodeFilters = [''server[0]'', ''agent[*]'']\<rparr>,
          \<lparr>Volume = ''/data'', Volume_NodeFilters = []\<rparr>]"
    by (simp add: readme_volumes_def)
  from inst readme_filters(2)
  have "expandPorts (map Some readme_ports) =
        Inr (map (\<lambda>v. \<lparr>Port = port_host v @ '':'' @ fmt_d (port_host_port v) @ '':''
                                 @ fmt_d (container_port v) @ ''/'' @ protocol v,
                        Port_NodeFilters = map the (port_node_filters v)\<rparr>) readme_ports)"
    by blast
  then have p: "expandPorts (map Some readme_ports) =
        Inr [\<lparr>Port = ''localhost:8080:80/TCP'', Port_NodeFilters = [''loadbalancer'']\<rparr>]"
    by (simp add: readme_ports_def fmt_d_8080 fmt_d_80)
  from inst have r: "expandRegistryVolumes
        (map Some [\<lparr>registry_source = ''/srv/registry'',
                     registry_destination = ''/var/lib/registry''\<rparr>,
                   \<lparr>registry_source = [], registry_destination = ''/cache''\<rparr>])
        = Inr [''/srv/registry:/var/lib/registry'', ''/cache'']"
    by simp
  from v p r readme_filters show ?thesis
    unfolding list_all_iff by blast
qed

section \<open>The small runtime, field by field\<close>

lemma sim_k3d_sel:
  "DefaultObjectNamePrefix sim_k3d = ''k3d''"
  "DefaultRegistryPort sim_k3d = ''5000''"
  "LabelRole sim_k3d = ''k3d.role''"
  "LabelClusterName sim_k3d = ''k3d.cluster''"
  "NodeRoles sim_k3d = [(''server'', ''server''), (''agent'', ''agent'')]"
  "GetFreePort sim_k3d w = ((sim_free_port w, None), w)"
  "TransformSimpleToClusterConfig sim_k3d sc w =
     (Inr \<lparr>Config_Cluster = \<lparr>Cluster_Name = Name sc, Cluster_Network_Name = Network sc,
                                Cluster_Token = ClusterToken sc\<rparr>,
              KubeconfigOpts = KubeconfigOptions (Options sc)\<rparr>, w)"
  "ProcessClusterConfig sim_k3d cc w = (Inr cc, w)"
  "ValidateClusterConfig sim_k3d cc w =
     (if Cluster_Name (Config_Cluster cc) = [] then Some ''cluster name must not be empty''
      else None, w)"
  "ClusterGet sim_k3d c w =
     (case sim_lookup_error w of
        Some e \<Rightarrow> Inl e
      | None \<Rightarrow>
          if Cluster_Name c \<in> set (sim_clusters w)
          then Inr \<lparr>Cluster_Name = Cluster_Name c,
                    Cluster_Network_Name = ''k3d-'' @ Cluster_Name c,
                    Cluster_Token = ''secret''\<rparr>
          else Inl ''No nodes found for given cluster'', w)"
  "ClusterRun sim_k3d cc w =
     (case sim_run_error w of
        Some e \<Rightarrow> (Some e, w)
      | None \<Rightarrow> (None, w\<lparr>sim_clusters := Cluster_Name (Config_Cluster cc) # sim_clusters w\<rparr>))"
  "ClusterDelete sim_k3d c opts w =
     (case sim_delete_error w of
        Some e \<Rightarrow> (Some e, w)
      | None \<Rightarrow> (None, w\<lparr>sim_clusters := removeAll (Cluster_Name c) (sim_clusters w)\<rparr>))"
  "KubeconfigGetWrite sim_k3d c path wopts w = (sim_kubeconfig w c, w)"
  "KubeconfigGet sim_k3d c w = (sim_kubeconfig w c, w)"
  "Write sim_k3d kc = Inr (Inr ''apiVersion: v1'')"
  "NodeAddToCluster sim_k3d n c w =
     (if Cluster_Name c \<in> set (sim_clusters w)
      then (None, w\<lparr>sim_nodes := Node_Name n # sim_nodes w\<rparr>)
      else (Some ''Failed to find specified cluster'', w))"
  "NodeGet sim_k3d n w =
     (case sim_lookup_error w of
        Some e \<Rightarrow> Inl e
      | None \<Rightarrow> if Node_Name n \<in> set (sim_nodes w) then Inr n else Inl ''No node found'',
      w)"
  "NodeDelete sim_k3d n w =
     (if Node_Name n \<in> set (sim_nodes w)
      then (None, w\<lparr>sim_nodes := removeAll (Node_Name n) (sim_nodes w)\<rparr>)
      else (Some ''No node found'', w))"
  "RegistryRun sim_k3d r w =
     (if Registry_Host r \<in> set (sim_nodes w)
      then (Inl ''Failed to create registry: name in use'', w)
      else (Inr (named_node (Registry_Host r)),
            w\<lparr>sim_nodes := Registry_Host r # sim_nodes w\<rparr>))"
  "d_Set sim_k3d key w = (sim_set_error w, w)"
  by (simp_all add: sim_k3d_def)

section \<open>Ports and registries in the expansion\<close>

lemma expandPorts_nth:
  assumes "expandPorts (map Some pbs) = Inr ps" and "i < length pbs"
  shows "Port (ps ! i) = port_string (pbs ! i)"
proof -
  have m: "map Port ps = map port_string pbs"
    using assms(1) by (rule expandPorts_map)
  then have "length ps = length pbs"
    by (metis length_map)
  with m assms(2) show ?thesis
    by (metis nth_map)
qed

text \<open>
  Claim C5, as amended. For every port block the expanded string is
  \<open>host:hostPort:containerPort/protocol\<close> with the values of the block as they are:
  \<^verbatim>\<open>expandPorts\<close> applies no default protocol and allocates no port (it is a pure
  function, it issues no call). It returns one entry per block when no node filter is nil;
  a block without protocol gives a string that ends with the slash, and a block without
  host port gives the host port 0.
\<close>

theorem expandPorts_copies_unset_fields:
  "((\<forall>v\<in>set pbs. None \<notin> set (port_node_filters v)) \<longrightarrow>
      expandPorts (map Some pbs) =
        Inr (map (\<lambda>v. \<lparr>Port = port_host v @ '':'' @ fmt_d (port_host_port v) @ '':''
                                 @ fmt_d (container_port v) @ ''/'' @ protocol v,
                        Port_NodeFilters = map the (port_node_filters v)\<rparr>) pbs))
   \<and> (expandPorts (map Some pbs) = Inr ps \<longrightarrow> i < length pbs \<longrightarrow>
       (protocol (pbs ! i) = [] \<longrightarrow>
          Port (ps ! i) = port_host (pbs ! i) @ '':'' @ fmt_d (port_host_port (pbs ! i)) @ '':''
                            @ fmt_d (container_port (pbs ! i)) @ ''/'')
     \<and> (port_host_port (pbs ! i) = 0 \<longrightarrow>
          Port (ps ! i) = port_host (pbs ! i) @ '':0:'' @ fmt_d (container_port (pbs ! i))
                            @ ''/'' @ protocol (pbs ! i)))"
proof (intro conjI impI)
  assume "\<forall>v\<in>set pbs. None \<notin> set (port_node_filters v)"
  from expandPorts_total[OF this]
  show "expandPorts (map Some pbs) =
        Inr (map (\<lambda>v. \<lparr>Port = port_host v @ '':'' @ fmt_d (port_host_port v) @ '':''
                                 @ fmt_d (container_port v) @ ''/'' @ protocol v,
                        Port_NodeFilters = map the (port_node_filters v)\<rparr>) pbs)"
    by (simp add: port_string_def)
next
  assume "expandPorts (map Some pbs) = Inr ps" "i < length pbs" "protocol (pbs ! i) = []"
  then show "Port (ps ! i) = port_host (pbs ! i) @ '':'' @ fmt_d (port_host_port (pbs ! i))
      @ '':'' @ fmt_d (container_port (pbs ! i)) @ ''/''"
    by (simp add: expandPorts_nth port_string_def)
next
  assume "expandPorts (map Some pbs) = Inr ps" "i < length pbs" "port_host_port (pbs ! i) = 0"
  then show "Port (ps ! i) = port_host (pbs ! i) @ '':0:'' @ fmt_d (container_port (pbs ! i))
      @ ''/'' @ protocol (pbs ! i)"
    by (simp add: expandPorts_nth port_string_def fmt_d_0)
qed

theorem expandPorts_copies_unset_fields_witness:
  "None \<notin> set (port_node_filters bare_port)
   \<and> expandPorts (map Some [bare_port]) = Inr [\<lparr>Port = '':0:80/'', Port_NodeFilters = []\<rparr>]
   \<and> (0::nat) < length [bare_port]
   \<and> protocol ([bare_port] ! 0) = [] \<and> port_host_port ([bare_port] ! 0) = 0
   \<and> Port ([\<lparr>Port = '':0:80/'', Port_NodeFilters = []\<rparr>] ! 0) = '':0:80/''"
proof -
  have g: "None \<notin> set (port_node_filters bare_port)"
    by (simp add: bare_port_def)
  then have f: "\<forall>v\<in>set [bare_port]. None \<notin> set (port_node_filters v)"
    by simp
  note inst = expandPorts_copies_unset_fields
    [of "[bare_port]" "[\<lparr>Port = '':0:80/'', Port_NodeFilters = []\<rparr>]" 0]
  from inst[THEN conjunct1, THEN mp, OF f]
  have e: "expandPorts (map Some [bare_port])
      = Inr [\<lparr>Port = '':0:80/'', Port_NodeFilters = []\<rparr>]"
    by (simp add: bare_port_def fmt_d_0 fmt_d_80)
  have l: "(0::nat) < length [bare_port]" by simp
  have z: "port_host_port ([bare_port] ! 0) = 0" "protocol ([bare_port] ! 0) = []"
    by (simp_all add: bare_port_def)
  from inst[THEN conjunct2, THEN mp, OF e, THEN mp, OF l, THEN conjunct2, THEN mp, OF z(1)]
  have "Port ([\<lparr>Port = '':0:80/'', Port_NodeFilters = []\<rparr>] ! 0) = '':0:80/''"
    by (simp add: bare_port_def fmt_d_80)
  with e g l z show ?thesis
    by blast
qed

text \<open>
  The claim as stated fails on a port block that sets only \<^verbatim>\<open>container_port\<close>: the
  entry has the host port 0 and an empty protocol.
\<close>

theorem expandPorts_default_protocol_counterexample:
  "expandPorts [Some bare_port] = Inr [\<lparr>Port = '':0:80/'', Port_NodeFilters = []\<rparr>]
   \<and> protocol bare_port = [] \<and> port_host_port bare_port = 0"
  by (simp add: bare_port_def expandPorts_def expandPort_def assert_elem_def
      expandNodeFilters_def port_string_def fmt_d_0 fmt_d_80)

lemma issued_append [simp]: "trace s' = trace s @ tr \<Longrightarrow> issued s s' = tr"
  by (simp add: issued_def)

lemma issued_same [simp]: "trace s' = trace s \<Longrightarrow> issued s s' = []"
  by (simp add: issued_def)

lemma expandExposureOptions_state:
  "expandExposureOptions k l s = (x, s1) \<Longrightarrow>
   \<exists>e. trace s1 = trace s @ [(Call_GetFreePort, e)] \<and> logged s1 = logged s"
  by (auto simp: expandExposureOptions_def invoke_def Let_def split: prod.splits if_splits)

lemma expandSimpleConfig_Inr:
  assumes "expandSimpleConfig k d s = (Inr sc, s1)"
  shows "\<exists>e. trace s1 = trace s @ [(Call_GetFreePort, e)]"
    and "logged s1 = logged s"
    and "expandRegistries (registries d) = Inr (Registries sc)"
    and "Name sc = name d"
  using assms
  by (auto simp: expandSimpleConfig_def Let_def split: sum.splits prod.splits
      dest!: expandExposureOptions_state)

lemma expandSimpleConfig_Inl:
  assumes "expandSimpleConfig k d s = (Inl p, s1)"
  shows "trace s1 = trace s \<or> (\<exists>e. trace s1 = trace s @ [(Call_GetFreePort, e)])"
    and "logged s1 = logged s"
  using assms
  by (auto simp: expandSimpleConfig_def Let_def split: sum.splits prod.splits
      dest!: expandExposureOptions_state)



lemmas sim_inputs =
  bar_cluster_def bar_cluster_with_registry_def registries_without_port_def
  nameless_cluster_def bar_node_def bar_registry_def sim_world_def start_def

lemmas expander_defs =
  expandEnvVars_def expandPorts_def expandVolumes_def expandLabels_def
  expandConfigOptionsK3d_def expandConfigOptionsK3s_def expandConfigOptionsKubeconfig_def
  expandConfigOptionsRuntime_def expandRegistries_def expandExposureOptions_def
  expandNodeFilters_def assert_elem_def




section \<open>Reading a cluster back\<close>

lemma map_read_absent: "m key = None \<Longrightarrow> map_read m key = None"
  by (simp add: map_read_def)

lemma flattenCredentials_Inl:
  "flattenCredentials k n kc = Inl p \<longleftrightarrow>
     Write k kc = Inl p
     \<or> (\<exists>written. Write k kc = Inr written) \<and> p = NilPointerDereference \<and>
       (map_read (AuthInfos kc) (''admin@'' @ DefaultObjectNamePrefix k @ ''-'' @ n) = None
        \<or> map_read (Clusters kc) (DefaultObjectNamePrefix k @ ''-'' @ n) = None)"
  by (auto simp: flattenCredentials_def Let_def split: option.splits sum.splits)

lemma flattenCredentials_missing:
  "map_read (AuthInfos kc) (''admin@'' @ DefaultObjectNamePrefix k @ ''-'' @ n) = None
     \<or> map_read (Clusters kc) (DefaultObjectNamePrefix k @ ''-'' @ n) = None \<Longrightarrow>
   flattenCredentials k n kc =
     Inl (case Write k kc of Inl p \<Rightarrow> p | Inr _ \<Rightarrow> NilPointerDereference)"
  by (auto simp: flattenCredentials_def Let_def split: option.splits sum.splits)

lemma resourceClusterRead_fetched:
  assumes "ClusterGet k (named_cluster (name d)) (world s) = (Inr cl, w1)"
    and "d_Set k ''network'' w1 = (None, w2)"
    and "d_Set k ''token'' w2 = (None, w3)"
    and "KubeconfigGet k cl w3 = (Inr kc, w4)"
  shows "flattenCredentials k (name d) kc = Inl p \<Longrightarrow> fst (resourceClusterRead k d s) = Inl p"
    and "flattenCredentials k (name d) kc = Inr creds \<Longrightarrow>
         \<exists>ds. fst (resourceClusterRead k d s) = Inr ds"
  using assms
  by (auto simp: resourceClusterRead_def invoke_def Let_def split: prod.splits option.splits)

text \<open>
  Claim C10. \<^verbatim>\<open>flattenCredentials\<close> dereferences the auth-info entry named
  \<open>admin@<prefix>-<name>\<close> and the cluster entry named \<open><prefix>-<name>\<close> unchecked: it
  panics exactly when one of the two reads gives the nil pointer (the key is absent, or
  holds nil) or \<^verbatim>\<open>clientcmd.Write\<close> has panicked before. The panic is the outcome of
  \<^verbatim>\<open>resourceClusterRead\<close> when the runtime client returns a kubeconfig that lacks either
  entry for a cluster it has found: no error is returned.
\<close>

theorem flattenCredentials_panics_on_missing_entry:
  "((\<exists>p. flattenCredentials k n kc = Inl p) \<longleftrightarrow>
      ((\<exists>p. Write k kc = Inl p)
       \<or> map_read (AuthInfos kc) (''admin@'' @ DefaultObjectNamePrefix k @ ''-'' @ n) = None
       \<or> map_read (Clusters kc) (DefaultObjectNamePrefix k @ ''-'' @ n) = None))
   \<and> (AuthInfos kc (''admin@'' @ DefaultObjectNamePrefix k @ ''-'' @ n) = None
       \<or> Clusters kc (DefaultObjectNamePrefix k @ ''-'' @ n) = None \<longrightarrow>
      (\<exists>p. flattenCredentials k n kc = Inl p))
   \<and> (ClusterGet k (named_cluster (name d)) (world s) = (Inr cl, w1) \<longrightarrow>
      d_Set k ''network'' w1 = (None, w2) \<longrightarrow>
      d_Set k ''token'' w2 = (None, w3) \<longrightarrow>
      KubeconfigGet k cl w3 = (Inr kc', w4) \<longrightarrow>
      (AuthInfos kc' (''admin@'' @ DefaultObjectNamePrefix k @ ''-'' @ name d) = None
       \<or> Clusters kc' (DefaultObjectNamePrefix k @ ''-'' @ name d) = None) \<longrightarrow>
      fst (resourceClusterRead k d s)
        = Inl (case Write k kc' of Inl p \<Rightarrow> p | Inr _ \<Rightarrow> NilPointerDereference))"
proof (intro conjI impI)
  show "(\<exists>p. flattenCredentials k n kc = Inl p) \<longleftrightarrow>
      ((\<exists>p. Write k kc = Inl p)
       \<or> map_read (AuthInfos kc) (''admin@'' @ DefaultObjectNamePrefix k @ ''-'' @ n) = None
       \<or> map_read (Clusters kc) (DefaultObjectNamePrefix k @ ''-'' @ n) = None)"
    unfolding flattenCredentials_Inl by (cases "Write k kc") auto
next
  assume "AuthInfos kc (''admin@'' @ DefaultObjectNamePrefix k @ ''-'' @ n) = None
       \<or> Clusters kc (DefaultObjectNamePrefix k @ ''-'' @ n) = None"
  then have "map_read (AuthInfos kc) (''admin@'' @ DefaultObjectNamePrefix k @ ''-'' @ n) = None
     \<or> map_read (Clusters kc) (DefaultObjectNamePrefix k @ ''-'' @ n) = None"
    by (auto simp: map_read_absent)
  from flattenCredentials_missing[OF this]
  show "\<exists>p. flattenCredentials k n kc = Inl p" by blast
next
  assume a: "ClusterGet k (named_cluster (name d)) (world s) = (Inr cl, w1)"
    "d_Set k ''network'' w1 = (None, w2)" "d_Set k ''token'' w2 = (None, w3)"
    "KubeconfigGet k cl w3 = (Inr kc', w4)"
    and m: "AuthInfos kc' (''admin@'' @ DefaultObjectNamePrefix k @ ''-'' @ name d) = None
       \<or> Clusters kc' (DefaultObjectNamePrefix k @ ''-'' @ name d) = None"
  from m have "map_read (AuthInfos kc')
        (''admin@'' @ DefaultObjectNamePrefix k @ ''-'' @ name d) = None
     \<or> map_read (Clusters kc') (DefaultObjectNamePrefix k @ ''-'' @ name d) = None"
    by (auto simp: map_read_absent)
  from resourceClusterRead_fetched(1)[OF a flattenCredentials_missing[OF this]]
  show "fst (resourceClusterRead k d s)
        = Inl (case Write k kc' of Inl p \<Rightarrow> p | Inr _ \<Rightarrow> NilPointerDereference)" .
qed

lemmas sim_worlds =
  sim_bar_running_def sim_no_entries_def sim_run_fails_def sim_rollback_fails_def
  sim_kubeconfig_fails_def sim_registry_running_def sim_set_fails_def sim_lookup_fails_def
  sim_bar_running_lookup_fails_def bar_cluster_syncing_def

theorem flattenCredentials_panics_on_missing_entry_witness:
  "ClusterGet sim_k3d (named_cluster (name bar_cluster)) (world (start sim_no_entries)) =
     (Inr \<lparr>Cluster_Name = ''bar'', Cluster_Network_Name = ''k3d-bar'',
           Cluster_Token = ''secret''\<rparr>, sim_no_entries)
   \<and> d_Set sim_k3d ''network'' sim_no_entries = (None, sim_no_entries)
   \<and> d_Set sim_k3d ''token'' sim_no_entries = (None, sim_no_entries)
   \<and> KubeconfigGet sim_k3d
        \<lparr>Cluster_Name = ''bar'', Cluster_Network_Name = ''k3d-bar'', Cluster_Token = ''secret''\<rparr>
        sim_no_entries
      = (Inr \<lparr>AuthInfos = Map.empty, Clusters = Map.empty\<rparr>, sim_no_entries)
   \<and> AuthInfos \<lparr>AuthInfos = Map.empty, Clusters = Map.empty\<rparr>
        (''admin@'' @ DefaultObjectNamePrefix sim_k3d @ ''-'' @ name bar_cluster) = None
   \<and> (\<exists>p. flattenCredentials sim_k3d ''bar'' \<lparr>AuthInfos = Map.empty, Clusters = Map.empty\<rparr>
          = Inl p)
   \<and> fst (resourceClusterRead sim_k3d bar_cluster (start sim_no_entries))
      = Inl NilPointerDereference"
  using flattenCredentials_panics_on_missing_entry
    [where k = sim_k3d and n = "''bar''"
       and kc = "\<lparr>AuthInfos = Map.empty, Clusters = Map.empty\<rparr>"
       and d = bar_cluster and s = "start sim_no_entries"
       and cl = "\<lparr>Cluster_Name = ''bar'', Cluster_Network_Name = ''k3d-bar'',
                  Cluster_Token = ''secret''\<rparr>"
       and ?w1.0 = sim_no_entries and ?w2.0 = sim_no_entries and ?w3.0 = sim_no_entries
       and kc' = "\<lparr>AuthInfos = Map.empty, Clusters = Map.empty\<rparr>"
       and ?w4.0 = sim_no_entries]
  by (simp add: sim_k3d_sel sim_kubeconfig_def named_cluster_def map_read_def sim_inputs
      sim_worlds)

section \<open>The trace of each part of an operation\<close>

lemma create_succeeded_append [simp]:
  "create_succeeded (a @ b) \<longleftrightarrow> create_succeeded a \<or> create_succeeded b"
  by (simp add: create_succeeded_def)

lemma create_succeeded_Nil [simp]: "\<not> create_succeeded []"
  by (simp add: create_succeeded_def)

lemma create_succeeded_Cons [simp]:
  "create_succeeded (ev # tr) \<longleftrightarrow> (creates (fst ev) \<and> snd ev = None) \<or> create_succeeded tr"
  by (simp add: create_succeeded_def)

lemma propagated_Nil [simp]: "propagated tr []"
  by (simp add: propagated_def)

lemma propagated_FromErr [simp]:
  "propagated tr (FromErr e) \<longleftrightarrow> (\<exists>c. (c, Some e) \<in> set tr)"
  by (force simp: propagated_def FromErr_def list_ex_iff)

lemma propagated_mono:
  "propagated tr diags \<Longrightarrow> set tr \<subseteq> set tr' \<Longrightarrow> propagated tr' diags"
  by (auto simp: propagated_def list_all_iff list_ex_iff)

lemma issued_trans:
  "trace s1 = trace s @ a \<Longrightarrow> trace s2 = trace s1 @ b \<Longrightarrow> issued s s2 = a @ b"
  by (simp add: issued_def)

lemma prepareClusterConfig_Inl:
  assumes "prepareClusterConfig k sc s = (Inl diags, s2)"
  shows "\<exists>tr. trace s2 = trace s @ tr \<and> logged s2 = logged s \<and> propagated tr diags
           \<and> \<not> create_succeeded tr \<and> list_all (\<lambda>ev. \<not> mutates (fst ev)) tr"
  using assms
  by (auto simp: prepareClusterConfig_def invoke_def sum_err_def
      split: prod.splits sum.splits option.splits)

lemma prepareClusterConfig_Inr:
  assumes "prepareClusterConfig k sc s = (Inr cc, s2)"
  shows "\<exists>tr. trace s2 = trace s @ tr \<and> logged s2 = logged s
           \<and> \<not> create_succeeded tr \<and> list_all (\<lambda>ev. \<not> mutates (fst ev)) tr"
  using assms
  by (auto simp: prepareClusterConfig_def invoke_def sum_err_def
      split: prod.splits sum.splits option.splits)

lemma createCluster_Some:
  assumes "createCluster k n cc s = (Some diags, s3)"
  shows "\<exists>tr. trace s3 = trace s @ tr \<and> logged s3 = logged s \<and> \<not> create_succeeded tr
           \<and> (propagated tr diags \<or> diags = Errorf already_exists_text
                \<or> diags = Errorf rollback_failed_text)"
  using assms
  by (auto simp: createCluster_def invoke_def sum_err_def Let_def
      split: prod.splits sum.splits option.splits)

lemma createCluster_None:
  assumes "createCluster k n cc s = (None, s3)"
  shows "\<exists>ge. trace s3 = trace s @ [(Call_ClusterGet (Config_Cluster cc), Some ge),
                                     (Call_ClusterRun cc, None)]"
    and "logged s3 = logged s"
  using assms
  by (auto simp: createCluster_def invoke_def sum_err_def Let_def
      split: prod.splits sum.splits option.splits)

lemma updateDefaultKubeconfig_trace:
  "\<exists>tr. trace (updateDefaultKubeconfig k sc cc s) = trace s @ tr \<and> \<not> create_succeeded tr
     \<and> (\<forall>c p opts e. (Call_KubeconfigGetWrite c p opts, e) \<in> set tr \<longrightarrow>
            UpdateExisting opts \<and> \<not> OverwriteExisting opts)"
  by (auto simp: updateDefaultKubeconfig_def invoke_def sum_err_def Let_def log_warn_def
      split: prod.splits sum.splits)

lemma resourceClusterRead_facts:
  assumes "resourceClusterRead k d s = (r, d', s')"
  shows "ResourceId d' = ResourceId d" and "name d' = name d"
    and "\<exists>tr. trace s' = trace s @ tr \<and> \<not> create_succeeded tr
            \<and> (\<forall>diags. r = Inr diags \<longrightarrow> propagated tr diags)"
  using assms
  by (auto simp: resourceClusterRead_def invoke_def sum_err_def Let_def log_warn_def
      split: prod.splits sum.splits option.splits)

section \<open>The identity of a resource\<close>

lemma sum_err_simps [simp]: "sum_err (Inl e) = Some e" "sum_err (Inr x) = None"
  by (simp_all add: sum_err_def)

lemma resourceClusterCreate_identity:
  assumes c: "resourceClusterCreate k d s = (r, d', s')"
  shows "(d' = d \<and> \<not> create_succeeded (issued s s'))
         \<or> (create_succeeded (issued s s') \<and> ResourceId d' = name d)"
proof (cases "expandSimpleConfig k d s")
  case (Pair x s1)
  show ?thesis
  proof (cases x)
    case (Inl p)
    with Pair c have "d' = d" "s' = s1"
      by (auto simp: resourceClusterCreate_def)
    moreover from expandSimpleConfig_Inl(1) Pair Inl
    have "trace s1 = trace s \<or> (\<exists>e. trace s1 = trace s @ [(Call_GetFreePort, e)])"
      by blast
    ultimately show ?thesis by auto
  next
    case (Inr simpleConfig)
    from expandSimpleConfig_Inr(1) Pair Inr
    obtain e where t1: "trace s1 = trace s @ [(Call_GetFreePort, e)]"
      by blast
    show ?thesis
    proof (cases "prepareClusterConfig k simpleConfig s1")
      case P: (Pair y s2)
      show ?thesis
      proof (cases y)
        case L: (Inl diags)
        with Pair Inr P c have "d' = d" "s' = s2"
          by (auto simp: resourceClusterCreate_def)
        moreover from prepareClusterConfig_Inl P L
        obtain tr where "trace s2 = trace s1 @ tr" "\<not> create_succeeded tr"
          by blast
        ultimately show ?thesis using t1 by (simp add: issued_trans)
      next
        case R: (Inr clusterConfig)
        from prepareClusterConfig_Inr P R
        obtain tr where t2: "trace s2 = trace s1 @ tr" "\<not> create_succeeded tr"
          by blast
        show ?thesis
        proof (cases "createCluster k (name d) clusterConfig s2")
          case C: (Pair z s3)
          show ?thesis
          proof (cases z)
            case (Some diags)
            with Pair Inr P R C c have "d' = d" "s' = s3"
              by (auto simp: resourceClusterCreate_def)
            moreover from createCluster_Some C Some
            obtain tr3 where "trace s3 = trace s2 @ tr3" "\<not> create_succeeded tr3"
              by blast
            ultimately show ?thesis using t1 t2 by (simp add: issued_def)
          next
            case None
            with Pair Inr P R C c
            have rd: "resourceClusterRead k (SetId (name d) d)
                        (updateDefaultKubeconfig k simpleConfig clusterConfig s3) = (r, d', s')"
              by (auto simp: resourceClusterCreate_def)
            from createCluster_None(1) C None
            obtain ge where t3: "trace s3 = trace s2 @
                [(Call_ClusterGet (Config_Cluster clusterConfig), Some ge),
                 (Call_ClusterRun clusterConfig, None)]"
              by blast
            from updateDefaultKubeconfig_trace
            obtain tr4 where t4: "trace (updateDefaultKubeconfig k simpleConfig clusterConfig s3)
                = trace s3 @ tr4"
              by blast
            from resourceClusterRead_facts(3)[OF rd]
            obtain tr5 where t5: "trace s' =
                trace (updateDefaultKubeconfig k simpleConfig clusterConfig s3) @ tr5"
              by blast
            from resourceClusterRead_facts(1)[OF rd]
            have "ResourceId d' = name d" by (simp add: SetId_def)
            moreover have "create_succeeded (issued s s')"
              using t1 t2 t3 t4 t5 by (simp add: issued_def)
            ultimately show ?thesis by simp
          qed
        qed
      qed
    qed
  qed
qed

lemma resourceNodeRead_facts:
  assumes "resourceNodeRead k d s = (r, d', s')"
  shows "d' = d
    \<and> (\<exists>tr. trace s' = trace s @ tr \<and> \<not> create_succeeded tr \<and> propagated tr r)"
  using assms
  by (auto simp: resourceNodeRead_def invoke_def sum_err_def Let_def
      split: prod.splits sum.splits)

lemma resourceNodeCreate_identity:
  assumes "resourceNodeCreate k d s = (r, d', s')"
  shows "(d' = d \<and> \<not> create_succeeded (issued s s'))
         \<or> (create_succeeded (issued s s')
             \<and> ResourceId d' = DefaultObjectNamePrefix k @ ''-'' @ name d)"
  using assms
  by (auto simp: resourceNodeCreate_def invoke_def Let_def SetId_def issued_def
      split: prod.splits option.splits dest!: resourceNodeRead_facts)

lemma expandExposureOpts_state:
  "expandExposureOpts k l s = (x, s1) \<Longrightarrow>
   \<exists>e. trace s1 = trace s @ [(Call_GetFreePort, e)] \<and> logged s1 = logged s"
  by (auto simp: expandExposureOpts_def invoke_def Let_def split: prod.splits if_splits)

lemma resourceRegistryRead_facts:
  assumes "resourceRegistryRead k d s = (r, d', s')"
  shows "d' = d
    \<and> (\<exists>tr. trace s' = trace s @ tr \<and> \<not> create_succeeded tr
            \<and> (\<exists>diags. r = Inr diags \<and> propagated tr diags))"
  using assms
  by (auto simp: resourceRegistryRead_def invoke_def sum_err_def Let_def
      split: prod.splits sum.splits)

lemma resourceRegistryCreate_identity:
  assumes "resourceRegistryCreate k d s = (r, d', s')"
  shows "(d' = d \<and> \<not> create_succeeded (issued s s'))
         \<or> (create_succeeded (issued s s')
             \<and> ResourceId d' = DefaultObjectNamePrefix k @ ''-'' @ name d)"
  using assms
  by (auto simp: resourceRegistryCreate_def invoke_def Let_def SetId_def issued_def sum_err_def
      split: prod.splits sum.splits
      dest!: resourceRegistryRead_facts expandExposureOpts_state)

section \<open>Runs on the small runtime\<close>

lemmas cluster_ops =
  resourceClusterCreate_def expandSimpleConfig_def prepareClusterConfig_def createCluster_def
  updateDefaultKubeconfig_def resourceClusterRead_def resourceClusterDelete_def
  flattenCredentials_def map_read_def expander_defs invoke_def log_warn_def SetId_def
  named_cluster_def sim_kubeconfig_def Let_def

lemmas node_ops =
  resourceNodeCreate_def resourceNodeRead_def resourceNodeDelete_def dataSourceNodeRead_def
  invoke_def SetId_def named_cluster_def named_node_def map_index_def Let_def

lemmas registry_ops =
  resourceRegistryCreate_def resourceRegistryRead_def resourceRegistryDelete_def
  dataSourceRegistryRead_def expandExposureOpts_def expandRegistryVolumes_def
  invoke_def SetId_def named_node_def Let_def

lemma triple_collapse: "x = (fst x, fst (snd x), snd (snd x))"
  by simp

section \<open>The identity is assigned after the create call\<close>

text \<open>
  Claim C9, as amended. In each of the three Create operations the identity is assigned
  only after the create call of the runtime has returned no error: unless that call was
  issued and succeeded the resource data, and with it the identity, is as it was. For the
  cluster this covers every error before and at the creation: an error of the transform,
  process or validate step, the already-exists error and a failed \<^verbatim>\<open>ClusterRun\<close> all
  return the data unchanged. Once the create call has succeeded the identity is set,
  whatever Create returns: each Create ends with the read-back, and an error of the
  read-back is returned with the identity recorded.
\<close>

theorem identity_only_after_create_succeeded:
  "(resourceClusterCreate k dc s = (rc, dc', sc') \<longrightarrow>
      \<not> create_succeeded (issued s sc') \<longrightarrow> dc' = dc)
   \<and> (resourceNodeCreate k dn s = (rn, dn', sn') \<longrightarrow>
      \<not> create_succeeded (issued s sn') \<longrightarrow> dn' = dn)
   \<and> (resourceRegistryCreate k dr s = (rr, dr', sr') \<longrightarrow>
      \<not> create_succeeded (issued s sr') \<longrightarrow> dr' = dr)
   \<and> (expandSimpleConfig k dc s = (Inr simpleConfig, s1) \<longrightarrow>
      prepareClusterConfig k simpleConfig s1 = (Inl diags, s2) \<longrightarrow>
      resourceClusterCreate k dc s = (Inr diags, dc, s2)
      \<and> \<not> create_succeeded (issued s s2))
   \<and> (expandSimpleConfig k dc s = (Inr simpleConfig, s1) \<longrightarrow>
      prepareClusterConfig k simpleConfig s1 = (Inr clusterConfig, s2') \<longrightarrow>
      createCluster k (name dc) clusterConfig s2' = (Some diags', s3) \<longrightarrow>
      resourceClusterCreate k dc s = (Inr diags', dc, s3)
      \<and> \<not> create_succeeded (issued s s3))
   \<and> (resourceClusterCreate k dc s = (rc, dc', sc') \<longrightarrow>
      create_succeeded (issued s sc') \<longrightarrow> ResourceId dc' = name dc)
   \<and> (resourceNodeCreate k dn s = (rn, dn', sn') \<longrightarrow>
      create_succeeded (issued s sn') \<longrightarrow>
      ResourceId dn' = DefaultObjectNamePrefix k @ ''-'' @ name dn)
   \<and> (resourceRegistryCreate k dr s = (rr, dr', sr') \<longrightarrow>
      create_succeeded (issued s sr') \<longrightarrow>
      ResourceId dr' = DefaultObjectNamePrefix k @ ''-'' @ name dr)"
proof (intro conjI impI)
  assume "resourceClusterCreate k dc s = (rc, dc', sc')" "\<not> create_succeeded (issued s sc')"
  then show "dc' = dc"
    using resourceClusterCreate_identity by blast
next
  assume "resourceNodeCreate k dn s = (rn, dn', sn')" "\<not> create_succeeded (issued s sn')"
  then show "dn' = dn"
    using resourceNodeCreate_identity by blast
next
  assume "resourceRegistryCreate k dr s = (rr, dr', sr')" "\<not> create_succeeded (issued s sr')"
  then show "dr' = dr"
    using resourceRegistryCreate_identity by blast
next
  assume a: "expandSimpleConfig k dc s = (Inr simpleConfig, s1)"
    "prepareClusterConfig k simpleConfig s1 = (Inl diags, s2)"
  then show c: "resourceClusterCreate k dc s = (Inr diags, dc, s2)"
    by (simp add: resourceClusterCreate_def)
  from expandSimpleConfig_Inr(1)[OF a(1)] prepareClusterConfig_Inl[OF a(2)]
  show "\<not> create_succeeded (issued s s2)"
    by (auto simp: issued_def)
next
  assume a: "expandSimpleConfig k dc s = (Inr simpleConfig, s1)"
    "prepareClusterConfig k simpleConfig s1 = (Inr clusterConfig, s2')"
    "createCluster k (name dc) clusterConfig s2' = (Some diags', s3)"
  then show "resourceClusterCreate k dc s = (Inr diags', dc, s3)"
    by (simp add: resourceClusterCreate_def)
  from expandSimpleConfig_Inr(1)[OF a(1)] prepareClusterConfig_Inr[OF a(2)]
    createCluster_Some[OF a(3)]
  show "\<not> create_succeeded (issued s s3)"
    by (auto simp: issued_def)
next
  assume "resourceClusterCreate k dc s = (rc, dc', sc')" "create_succeeded (issued s sc')"
  then show "ResourceId dc' = name dc"
    using resourceClusterCreate_identity by blast
next
  assume "resourceNodeCreate k dn s = (rn, dn', sn')" "create_succeeded (issued s sn')"
  then show "ResourceId dn' = DefaultObjectNamePrefix k @ ''-'' @ name dn"
    using resourceNodeCreate_identity by blast
next
  assume "resourceRegistryCreate k dr s = (rr, dr', sr')" "create_succeeded (issued s sr')"
  then show "ResourceId dr' = DefaultObjectNamePrefix k @ ''-'' @ name dr"
    using resourceRegistryCreate_identity by blast
qed

lemma run_prepare_nameless:
  "\<exists>sc s1 s2. expandSimpleConfig sim_k3d nameless_cluster (start sim_world) = (Inr sc, s1)
     \<and> prepareClusterConfig sim_k3d sc s1 = (Inl (FromErr ''cluster name must not be empty''), s2)"
  by (simp add: cluster_ops sim_k3d_sel sim_inputs)

lemma run_create_existing:
  "\<exists>sc s1 cc s2 s3. expandSimpleConfig sim_k3d bar_cluster (start sim_bar_running) = (Inr sc, s1)
     \<and> prepareClusterConfig sim_k3d sc s1 = (Inr cc, s2)
     \<and> createCluster sim_k3d (name bar_cluster) cc s2 = (Some (Errorf already_exists_text), s3)"
  by (simp add: cluster_ops sim_k3d_sel sim_inputs sim_worlds)

theorem identity_only_after_create_succeeded_witness:
  "(\<not> create_succeeded (issued (start sim_run_fails)
        (snd (snd (resourceClusterCreate sim_k3d bar_cluster (start sim_run_fails)))))
    \<and> fst (snd (resourceClusterCreate sim_k3d bar_cluster (start sim_run_fails))) = bar_cluster)
   \<and> (\<not> create_succeeded (issued (start sim_world)
        (snd (snd (resourceNodeCreate sim_k3d bar_node (start sim_world)))))
    \<and> fst (snd (resourceNodeCreate sim_k3d bar_node (start sim_world))) = bar_node)
   \<and> (\<not> create_succeeded (issued (start sim_registry_running)
        (snd (snd (resourceRegistryCreate sim_k3d bar_registry (start sim_registry_running)))))
    \<and> fst (snd (resourceRegistryCreate sim_k3d bar_registry (start sim_registry_running)))
        = bar_registry)
   \<and> (\<exists>sc s1 s2. expandSimpleConfig sim_k3d nameless_cluster (start sim_world) = (Inr sc, s1)
        \<and> prepareClusterConfig sim_k3d sc s1
            = (Inl (FromErr ''cluster name must not be empty''), s2)
        \<and> resourceClusterCreate sim_k3d nameless_cluster (start sim_world)
            = (Inr (FromErr ''cluster name must not be empty''), nameless_cluster, s2))
   \<and> (\<exists>sc s1 cc s2 s3.
          expandSimpleConfig sim_k3d bar_cluster (start sim_bar_running) = (Inr sc, s1)
        \<and> prepareClusterConfig sim_k3d sc s1 = (Inr cc, s2)
        \<and> createCluster sim_k3d (name bar_cluster) cc s2
            = (Some (Errorf already_exists_text), s3)
        \<and> resourceClusterCreate sim_k3d bar_cluster (start sim_bar_running)
            = (Inr (Errorf already_exists_text), bar_cluster, s3))
   \<and> (create_succeeded (issued (start sim_lookup_fails)
        (snd (snd (resourceClusterCreate sim_k3d bar_cluster (start sim_lookup_fails)))))
    \<and> fst (resourceClusterCreate sim_k3d bar_cluster (start sim_lookup_fails))
        = Inr (FromErr ''Cannot connect to the Docker daemon'')
    \<and> ResourceId (fst (snd (resourceClusterCreate sim_k3d bar_cluster
          (start sim_lookup_fails)))) = ''bar'')
   \<and> (create_succeeded (issued (start sim_bar_running_lookup_fails)
        (snd (snd (resourceNodeCreate sim_k3d bar_node (start sim_bar_running_lookup_fails)))))
    \<and> fst (resourceNodeCreate sim_k3d bar_node (start sim_bar_running_lookup_fails))
        = FromErr ''Cannot connect to the Docker daemon''
    \<and> ResourceId (fst (snd (resourceNodeCreate sim_k3d bar_node
          (start sim_bar_running_lookup_fails)))) = ''k3d-bar'')
   \<and> (create_succeeded (issued (start sim_lookup_fails)
        (snd (snd (resourceRegistryCreate sim_k3d bar_registry (start sim_lookup_fails)))))
    \<and> fst (resourceRegistryCreate sim_k3d bar_registry (start sim_lookup_fails))
        = Inr (FromErr ''Cannot connect to the Docker daemon'')
    \<and> ResourceId (fst (snd (resourceRegistryCreate sim_k3d bar_registry
          (start sim_lookup_fails)))) = ''k3d-bar'')"
proof (intro conjI)
  let ?c = "resourceClusterCreate sim_k3d bar_cluster (start sim_run_fails)"
  show nc: "\<not> create_succeeded (issued (start sim_run_fails) (snd (snd ?c)))"
    by (simp add: cluster_ops sim_k3d_sel sim_inputs sim_worlds issued_def)
  from identity_only_after_create_succeeded
    [where k = sim_k3d and dc = bar_cluster and s = "start sim_run_fails"
       and rc = "fst ?c" and dc' = "fst (snd ?c)" and sc' = "snd (snd ?c)"] nc
  show "fst (snd ?c) = bar_cluster" by simp
next
  let ?n = "resourceNodeCreate sim_k3d bar_node (start sim_world)"
  show nn: "\<not> create_succeeded (issued (start sim_world) (snd (snd ?n)))"
    by (simp add: node_ops sim_k3d_sel sim_inputs issued_def)
  from identity_only_after_create_succeeded
    [where k = sim_k3d and dn = bar_node and s = "start sim_world"
       and rn = "fst ?n" and dn' = "fst (snd ?n)" and sn' = "snd (snd ?n)"] nn
  show "fst (snd ?n) = bar_node" by simp
next
  let ?r = "resourceRegistryCreate sim_k3d bar_registry (start sim_registry_running)"
  show nr: "\<not> create_succeeded (issued (start sim_registry_running) (snd (snd ?r)))"
    by (simp add: registry_ops sim_k3d_sel sim_inputs sim_worlds issued_def)
  from identity_only_after_create_succeeded
    [where k = sim_k3d and dr = bar_registry and s = "start sim_registry_running"
       and rr = "fst ?r" and dr' = "fst (snd ?r)" and sr' = "snd (snd ?r)"] nr
  show "fst (snd ?r) = bar_registry" by simp
next
  from run_prepare_nameless obtain sc s1 s2 where
    a: "expandSimpleConfig sim_k3d nameless_cluster (start sim_world) = (Inr sc, s1)"
      "prepareClusterConfig sim_k3d sc s1
         = (Inl (FromErr ''cluster name must not be empty''), s2)"
    by blast
  from identity_only_after_create_succeeded
    [where k = sim_k3d and dc = nameless_cluster and s = "start sim_world"
       and simpleConfig = sc and ?s1.0 = s1
       and diags = "FromErr ''cluster name must not be empty''" and ?s2.0 = s2] a
  show "\<exists>sc s1 s2. expandSimpleConfig sim_k3d nameless_cluster (start sim_world) = (Inr sc, s1)
        \<and> prepareClusterConfig sim_k3d sc s1
            = (Inl (FromErr ''cluster name must not be empty''), s2)
        \<and> resourceClusterCreate sim_k3d nameless_cluster (start sim_world)
            = (Inr (FromErr ''cluster name must not be empty''), nameless_cluster, s2)"
    by blast
next
  from run_create_existing obtain sc s1 cc s2 s3 where
    a: "expandSimpleConfig sim_k3d bar_cluster (start sim_bar_running) = (Inr sc, s1)"
      "prepareClusterConfig sim_k3d sc s1 = (Inr cc, s2)"
      "createCluster sim_k3d (name bar_cluster) cc s2 = (Some (Errorf already_exists_text), s3)"
    by blast
  from identity_only_after_create_succeeded
    [where k = sim_k3d and dc = bar_cluster and s = "start sim_bar_running"
       and simpleConfig = sc and ?s1.0 = s1 and clusterConfig = cc and ?s2' = s2
       and diags' = "Errorf already_exists_text" and ?s3.0 = s3] a
  show "\<exists>sc s1 cc s2 s3.
          expandSimpleConfig sim_k3d bar_cluster (start sim_bar_running) = (Inr sc, s1)
        \<and> prepareClusterConfig sim_k3d sc s1 = (Inr cc, s2)
        \<and> createCluster sim_k3d (name bar_cluster) cc s2
            = (Some (Errorf already_exists_text), s3)
        \<and> resourceClusterCreate sim_k3d bar_cluster (start sim_bar_running)
            = (Inr (Errorf already_exists_text), bar_cluster, s3)"
    by blast
next
  let ?c = "resourceClusterCreate sim_k3d bar_cluster (start sim_lookup_fails)"
  show cs: "create_succeeded (issued (start sim_lookup_fails) (snd (snd ?c)))"
    by (simp add: cluster_ops sim_k3d_sel sim_inputs sim_worlds issued_def)
  show "fst ?c = Inr (FromErr ''Cannot connect to the Docker daemon'')"
    by (simp add: cluster_ops sim_k3d_sel sim_inputs sim_worlds)
  from identity_only_after_create_succeeded
    [where k = sim_k3d and dc = bar_cluster and s = "start sim_lookup_fails"
       and rc = "fst ?c" and dc' = "fst (snd ?c)" and sc' = "snd (snd ?c)"] cs
  show "ResourceId (fst (snd ?c)) = ''bar''"
    by (simp add: sim_inputs)
next
  let ?n = "resourceNodeCreate sim_k3d bar_node (start sim_bar_running_lookup_fails)"
  show cs: "create_succeeded (issued (start sim_bar_running_lookup_fails) (snd (snd ?n)))"
    by (simp add: node_ops sim_k3d_sel sim_inputs sim_worlds issued_def)
  show "fst ?n = FromErr ''Cannot connect to the Docker daemon''"
    by (simp add: node_ops sim_k3d_sel sim_inputs sim_worlds)
  from identity_only_after_create_succeeded
    [where k = sim_k3d and dn = bar_node and s = "start sim_bar_running_lookup_fails"
       and rn = "fst ?n" and dn' = "fst (snd ?n)" and sn' = "snd (snd ?n)"] cs
  show "ResourceId (fst (snd ?n)) = ''k3d-bar''"
    by (simp add: sim_inputs sim_k3d_sel)
next
  let ?r = "resourceRegistryCreate sim_k3d bar_registry (start sim_lookup_fails)"
  show cs: "create_succeeded (issued (start sim_lookup_fails) (snd (snd ?r)))"
    by (simp add: registry_ops sim_k3d_sel sim_inputs sim_worlds issued_def)
  show "fst ?r = Inr (FromErr ''Cannot connect to the Docker daemon'')"
    by (simp add: registry_ops sim_k3d_sel sim_inputs sim_worlds)
  from identity_only_after_create_succeeded
    [where k = sim_k3d and dr = bar_registry and s = "start sim_lookup_fails"
       and rr = "fst ?r" and dr' = "fst (snd ?r)" and sr' = "snd (snd ?r)"] cs
  show "ResourceId (fst (snd ?r)) = ''k3d-bar''"
    by (simp add: sim_inputs sim_k3d_sel)
qed

text \<open>
  The claim as stated fails where it says that the identity is left unset whenever Create
  returns an error. Each Create sets the identity and then returns what the read-back
  returns. On a runtime that creates the resource and then fails every lookup, each of the
  three Create operations returns the error of the lookup with the identity recorded, while
  the identity submitted was empty.
\<close>

theorem identity_set_on_readback_error_counterexample:
  "(fst (resourceClusterCreate sim_k3d bar_cluster (start sim_lookup_fails))
      = Inr [\<lparr>Severity = Error, Summary = ''Cannot connect to the Docker daemon''\<rparr>]
    \<and> ResourceId (fst (snd (resourceClusterCreate sim_k3d bar_cluster
          (start sim_lookup_fails)))) = ''bar''
    \<and> ResourceId bar_cluster = [])
   \<and> (fst (resourceNodeCreate sim_k3d bar_node (start sim_bar_running_lookup_fails))
      = [\<lparr>Severity = Error, Summary = ''Cannot connect to the Docker daemon''\<rparr>]
    \<and> ResourceId (fst (snd (resourceNodeCreate sim_k3d bar_node
          (start sim_bar_running_lookup_fails)))) = ''k3d-bar''
    \<and> ResourceId bar_node = [])
   \<and> (fst (resourceRegistryCreate sim_k3d bar_registry (start sim_lookup_fails))
      = Inr [\<lparr>Severity = Error, Summary = ''Cannot connect to the Docker daemon''\<rparr>]
    \<and> ResourceId (fst (snd (resourceRegistryCreate sim_k3d bar_registry
          (start sim_lookup_fails)))) = ''k3d-bar''
    \<and> ResourceId bar_registry = [])"
proof (intro conjI)
  show "fst (resourceClusterCreate sim_k3d bar_cluster (start sim_lookup_fails))
      = Inr [\<lparr>Severity = Error, Summary = ''Cannot connect to the Docker daemon''\<rparr>]"
    by (simp add: cluster_ops sim_k3d_sel sim_inputs sim_worlds FromErr_def)
  show "ResourceId (fst (snd (resourceClusterCreate sim_k3d bar_cluster
          (start sim_lookup_fails)))) = ''bar''"
    by (simp add: cluster_ops sim_k3d_sel sim_inputs sim_worlds)
  show "ResourceId bar_cluster = []"
    by (simp add: sim_inputs)
  show "fst (resourceNodeCreate sim_k3d bar_node (start sim_bar_running_lookup_fails))
      = [\<lparr>Severity = Error, Summary = ''Cannot connect to the Docker daemon''\<rparr>]"
    by (simp add: node_ops sim_k3d_sel sim_inputs sim_worlds FromErr_def)
  show "ResourceId (fst (snd (resourceNodeCreate sim_k3d bar_node
          (start sim_bar_running_lookup_fails)))) = ''k3d-bar''"
    by (simp add: node_ops sim_k3d_sel sim_inputs sim_worlds)
  show "ResourceId bar_node = []"
    by (simp add: sim_inputs)
  show "fst (resourceRegistryCreate sim_k3d bar_registry (start sim_lookup_fails))
      = Inr [\<lparr>Severity = Error, Summary = ''Cannot connect to the Docker daemon''\<rparr>]"
    by (simp add: registry_ops sim_k3d_sel sim_inputs sim_worlds FromErr_def)
  show "ResourceId (fst (snd (resourceRegistryCreate sim_k3d bar_registry
          (start sim_lookup_fails)))) = ''k3d-bar''"
    by (simp add: registry_ops sim_k3d_sel sim_inputs sim_worlds)
  show "ResourceId bar_registry = []"
    by (simp add: sim_inputs)
qed

section \<open>The format of the identity\<close>

lemma dataSource_identity:
  "ResourceId (fst (snd (dataSourceNodeRead k dn s)))
     = DefaultObjectNamePrefix k @ ''-'' @ name dn"
  "ResourceId (fst (snd (dataSourceRegistryRead k dsr s)))
     = DefaultObjectNamePrefix k @ ''-'' @ name dsr"
  "ResourceId (fst (snd (dataSourceClusterRead k dsc s))) = name dsc"
  by (auto simp: dataSourceNodeRead_def dataSourceRegistryRead_def dataSourceClusterRead_def
      invoke_def Let_def SetId_def split: prod.splits sum.splits option.splits)

lemma resourceRead_identity:
  "ResourceId (fst (snd (resourceNodeRead k dn s))) = ResourceId dn"
  "ResourceId (fst (snd (resourceRegistryRead k dr s))) = ResourceId dr"
  "ResourceId (fst (snd (resourceClusterRead k dc s))) = ResourceId dc"
proof -
  show "ResourceId (fst (snd (resourceNodeRead k dn s))) = ResourceId dn"
    using resourceNodeRead_facts[OF triple_collapse, of k dn s] by simp
  show "ResourceId (fst (snd (resourceRegistryRead k dr s))) = ResourceId dr"
    using resourceRegistryRead_facts[OF triple_collapse, of k dr s] by simp
  show "ResourceId (fst (snd (resourceClusterRead k dc s))) = ResourceId dc"
    using resourceClusterRead_facts(1)[OF triple_collapse, of k dc s] by simp
qed

text \<open>
  Claim C1, as amended. The identity that Create assigns to a node and to a registry is the
  prefix, a hyphen and the name; the identity that Create assigns to a cluster is the name
  itself, without the prefix. The Read operations of the three resources leave the identity
  as it is (they never set it); the reads of the data sources set it, to the prefixed name
  for a node and a registry and to the name itself for a cluster.
\<close>

theorem identity_format:
  "(resourceNodeCreate k dn s = (rn, dn', sn') \<longrightarrow> create_succeeded (issued s sn') \<longrightarrow>
      ResourceId dn' = DefaultObjectNamePrefix k @ ''-'' @ name dn)
   \<and> (resourceRegistryCreate k dr s = (rr, dr', sr') \<longrightarrow> create_succeeded (issued s sr') \<longrightarrow>
      ResourceId dr' = DefaultObjectNamePrefix k @ ''-'' @ name dr)
   \<and> (resourceClusterCreate k dc s = (rc, dc', sc') \<longrightarrow> create_succeeded (issued s sc') \<longrightarrow>
      ResourceId dc' = name dc)
   \<and> ResourceId (fst (snd (resourceNodeRead k dn s))) = ResourceId dn
   \<and> ResourceId (fst (snd (resourceRegistryRead k dr s))) = ResourceId dr
   \<and> ResourceId (fst (snd (resourceClusterRead k dc s))) = ResourceId dc
   \<and> ResourceId (fst (snd (dataSourceNodeRead k dn s)))
        = DefaultObjectNamePrefix k @ ''-'' @ name dn
   \<and> ResourceId (fst (snd (dataSourceRegistryRead k dsr s)))
        = DefaultObjectNamePrefix k @ ''-'' @ name dsr
   \<and> ResourceId (fst (snd (dataSourceClusterRead k dsc s))) = name dsc"
proof (intro conjI impI)
  assume "resourceNodeCreate k dn s = (rn, dn', sn')" "create_succeeded (issued s sn')"
  then show "ResourceId dn' = DefaultObjectNamePrefix k @ ''-'' @ name dn"
    using resourceNodeCreate_identity by blast
next
  assume "resourceRegistryCreate k dr s = (rr, dr', sr')" "create_succeeded (issued s sr')"
  then show "ResourceId dr' = DefaultObjectNamePrefix k @ ''-'' @ name dr"
    using resourceRegistryCreate_identity by blast
next
  assume "resourceClusterCreate k dc s = (rc, dc', sc')" "create_succeeded (issued s sc')"
  then show "ResourceId dc' = name dc"
    using resourceClusterCreate_identity by blast
qed (simp_all add: resourceRead_identity dataSource_identity)

theorem identity_format_witness:
  "(create_succeeded (issued (start sim_bar_running)
        (snd (snd (resourceNodeCreate sim_k3d bar_node (start sim_bar_running)))))
    \<and> ResourceId (fst (snd (resourceNodeCreate sim_k3d bar_node (start sim_bar_running))))
        = ''k3d-bar'')
   \<and> (create_succeeded (issued (start sim_world)
        (snd (snd (resourceRegistryCreate sim_k3d bar_registry (start sim_world)))))
    \<and> ResourceId (fst (snd (resourceRegistryCreate sim_k3d bar_registry (start sim_world))))
        = ''k3d-bar'')
   \<and> (create_succeeded (issued (start sim_world)
        (snd (snd (resourceClusterCreate sim_k3d bar_cluster (start sim_world)))))
    \<and> ResourceId (fst (snd (resourceClusterCreate sim_k3d bar_cluster (start sim_world))))
        = ''bar'')"
proof (intro conjI)
  let ?n = "resourceNodeCreate sim_k3d bar_node (start sim_bar_running)"
  show sn: "create_succeeded (issued (start sim_bar_running) (snd (snd ?n)))"
    by (simp add: node_ops sim_k3d_sel sim_inputs sim_worlds issued_def)
  from identity_format
    [where k = sim_k3d and dn = bar_node and s = "start sim_bar_running"
       and rn = "fst ?n" and dn' = "fst (snd ?n)" and sn' = "snd (snd ?n)"] sn
  show "ResourceId (fst (snd ?n)) = ''k3d-bar''"
    by (simp add: sim_k3d_sel sim_inputs)
next
  let ?r = "resourceRegistryCreate sim_k3d bar_registry (start sim_world)"
  show sr: "create_succeeded (issued (start sim_world) (snd (snd ?r)))"
    by (simp add: registry_ops sim_k3d_sel sim_inputs issued_def)
  from identity_format
    [where k = sim_k3d and dr = bar_registry and s = "start sim_world"
       and rr = "fst ?r" and dr' = "fst (snd ?r)" and sr' = "snd (snd ?r)"] sr
  show "ResourceId (fst (snd ?r)) = ''k3d-bar''"
    by (simp add: sim_k3d_sel sim_inputs)
next
  let ?c = "resourceClusterCreate sim_k3d bar_cluster (start sim_world)"
  show sc: "create_succeeded (issued (start sim_world) (snd (snd ?c)))"
    by (simp add: cluster_ops sim_k3d_sel sim_inputs issued_def)
  from identity_format
    [where k = sim_k3d and dc = bar_cluster and s = "start sim_world"
       and rc = "fst ?c" and dc' = "fst (snd ?c)" and sc' = "snd (snd ?c)"] sc
  show "ResourceId (fst (snd ?c)) = ''bar''"
    by (simp add: sim_inputs)
qed

text \<open>
  The claim as stated fails on the cluster of the acceptance test: Create succeeds for
  \<open>name = "bar"\<close> and the identity is \<open>bar\<close>, not \<open>k3d-bar\<close>.
\<close>

theorem cluster_identity_counterexample:
  "fst (resourceClusterCreate sim_k3d bar_cluster (start sim_world)) = Inr []
   \<and> ResourceId (fst (snd (resourceClusterCreate sim_k3d bar_cluster (start sim_world))))
       = ''bar''
   \<and> DefaultObjectNamePrefix sim_k3d @ ''-'' @ name bar_cluster = ''k3d-bar''"
  by (simp add: cluster_ops sim_k3d_sel sim_inputs)

section \<open>The existence check and the rollback\<close>

text \<open>
  Claim C3. When the configuration has been validated and the runtime finds a cluster for
  it, Create returns the already-exists error; the lookup is the only call issued after the
  validation, the resource data is unchanged, and none of the calls of the whole operation
  changes the outside world: in particular \<^verbatim>\<open>ClusterRun\<close> is never called.
\<close>

theorem existing_cluster_is_not_recreated:
  "expandSimpleConfig k d s = (Inr simpleConfig, s1) \<Longrightarrow>
   prepareClusterConfig k simpleConfig s1 = (Inr clusterConfig, s2) \<Longrightarrow>
   ClusterGet k (Config_Cluster clusterConfig) (world s2) = (Inr found, w) \<Longrightarrow>
     resourceClusterCreate k d s =
       (Inr (Errorf already_exists_text), d,
        s2\<lparr>world := w,
           trace := trace s2 @ [(Call_ClusterGet (Config_Cluster clusterConfig), None)]\<rparr>)
   \<and> list_all (\<lambda>ev. \<not> mutates (fst ev))
         (issued s (snd (snd (resourceClusterCreate k d s))))
   \<and> \<not> list_ex (\<lambda>ev. creates (fst ev)) (issued s (snd (snd (resourceClusterCreate k d s))))"
proof -
  assume a: "expandSimpleConfig k d s = (Inr simpleConfig, s1)"
    "prepareClusterConfig k simpleConfig s1 = (Inr clusterConfig, s2)"
    "ClusterGet k (Config_Cluster clusterConfig) (world s2) = (Inr found, w)"
  let ?s3 = "s2\<lparr>world := w,
           trace := trace s2 @ [(Call_ClusterGet (Config_Cluster clusterConfig), None)]\<rparr>"
  from a(3) have c: "createCluster k (name d) clusterConfig s2
      = (Some (Errorf already_exists_text), ?s3)"
    by (simp add: createCluster_def invoke_def)
  with a(1,2) have r: "resourceClusterCreate k d s = (Inr (Errorf already_exists_text), d, ?s3)"
    by (simp add: resourceClusterCreate_def)
  from expandSimpleConfig_Inr(1)[OF a(1)] obtain e
    where t1: "trace s1 = trace s @ [(Call_GetFreePort, e)]" by blast
  from prepareClusterConfig_Inr[OF a(2)] obtain tr
    where t2: "trace s2 = trace s1 @ tr" "list_all (\<lambda>ev. \<not> mutates (fst ev)) tr" by blast
  have i: "issued s ?s3
      = (Call_GetFreePort, e) # tr @ [(Call_ClusterGet (Config_Cluster clusterConfig), None)]"
    using t1 t2 by (simp add: issued_def)
  have m: "list_all (\<lambda>ev. \<not> mutates (fst ev)) (issued s ?s3)"
    using t2(2) by (simp add: i)
  have "\<And>c. creates c \<Longrightarrow> mutates c"
    by (case_tac c) simp_all
  with m have "\<not> list_ex (\<lambda>ev. creates (fst ev)) (issued s ?s3)"
    by (auto simp: list_all_iff list_ex_iff)
  with r m show ?thesis by simp
qed

theorem existing_cluster_is_not_recreated_witness:
  "\<exists>sc s1 cc s2.
      expandSimpleConfig sim_k3d bar_cluster (start sim_bar_running) = (Inr sc, s1)
    \<and> prepareClusterConfig sim_k3d sc s1 = (Inr cc, s2)
    \<and> ClusterGet sim_k3d (Config_Cluster cc) (world s2) =
        (Inr \<lparr>Cluster_Name = ''bar'', Cluster_Network_Name = ''k3d-bar'',
              Cluster_Token = ''secret''\<rparr>, sim_bar_running)
    \<and> resourceClusterCreate sim_k3d bar_cluster (start sim_bar_running) =
        (Inr (Errorf already_exists_text), bar_cluster,
         s2\<lparr>world := sim_bar_running,
            trace := trace s2 @ [(Call_ClusterGet (Config_Cluster cc), None)]\<rparr>)
    \<and> \<not> list_ex (\<lambda>ev. creates (fst ev))
          (issued (start sim_bar_running)
             (snd (snd (resourceClusterCreate sim_k3d bar_cluster (start sim_bar_running)))))"
proof -
  have "\<exists>sc s1 cc s2.
      expandSimpleConfig sim_k3d bar_cluster (start sim_bar_running) = (Inr sc, s1)
    \<and> prepareClusterConfig sim_k3d sc s1 = (Inr cc, s2)
    \<and> ClusterGet sim_k3d (Config_Cluster cc) (world s2) =
        (Inr \<lparr>Cluster_Name = ''bar'', Cluster_Network_Name = ''k3d-bar'',
              Cluster_Token = ''secret''\<rparr>, sim_bar_running)"
    by (simp add: cluster_ops sim_k3d_sel sim_inputs sim_worlds)
  then obtain sc s1 cc s2 where
    a: "expandSimpleConfig sim_k3d bar_cluster (start sim_bar_running) = (Inr sc, s1)"
      "prepareClusterConfig sim_k3d sc s1 = (Inr cc, s2)"
      "ClusterGet sim_k3d (Config_Cluster cc) (world s2) =
        (Inr \<lparr>Cluster_Name = ''bar'', Cluster_Network_Name = ''k3d-bar'',
              Cluster_Token = ''secret''\<rparr>, sim_bar_running)"
    by blast
  from existing_cluster_is_not_recreated[OF a] a show ?thesis
    by blast
qed


lemma run_rollback:
  "\<exists>sc s1 cc s2.
      expandSimpleConfig sim_k3d bar_cluster (start sim_rollback_fails) = (Inr sc, s1)
    \<and> prepareClusterConfig sim_k3d sc s1 = (Inr cc, s2)
    \<and> ClusterGet sim_k3d (Config_Cluster cc) (world s2)
        = (Inl ''No nodes found for given cluster'', sim_rollback_fails)
    \<and> ClusterRun sim_k3d cc sim_rollback_fails = (Some ''Failed Cluster Start'', sim_rollback_fails)"
  "\<exists>sc s1 cc s2.
      expandSimpleConfig sim_k3d bar_cluster (start sim_run_fails) = (Inr sc, s1)
    \<and> prepareClusterConfig sim_k3d sc s1 = (Inr cc, s2)
    \<and> ClusterGet sim_k3d (Config_Cluster cc) (world s2)
        = (Inl ''No nodes found for given cluster'', sim_run_fails)
    \<and> ClusterRun sim_k3d cc sim_run_fails = (Some ''Failed Cluster Start'', sim_run_fails)"
  by (simp_all add: cluster_ops sim_k3d_sel sim_inputs sim_worlds)




text \<open>
  Where the transform renames the cluster, the delete does not reach the cluster that was
  submitted. On a runtime that names a cluster without a name \<open>k3s-default\<close> and fails to
  start it, the calls of Create that change the outside world are the start of
  \<open>k3s-default\<close> and the delete of the cluster of the empty name.
\<close>

lemma rollback_misses_renamed_cluster:
  "\<exists>cc. filter (\<lambda>ev. mutates (fst ev))
          (trace (snd (snd (resourceClusterCreate sim_k3d_defaulting nameless_cluster
             (start sim_run_fails)))))
        = [(Call_ClusterRun cc, Some ''Failed Cluster Start''),
           (Call_ClusterDelete (named_cluster []) \<lparr>SkipRegistryCheck = False\<rparr>, None)]
      \<and> Cluster_Name (Config_Cluster cc) = ''k3s-default''"
  by (simp add: cluster_ops sim_k3d_defaulting_def sim_k3d_sel sim_inputs sim_worlds)


section \<open>The kubeconfig after the creation\<close>

lemma expandSimpleConfig_merges:
  "expandSimpleConfig k d s = (x, s1) \<Longrightarrow>
   \<exists>tr. trace s1 = trace s @ tr \<and> list_all (\<lambda>ev. merges (fst ev)) tr"
  using expandSimpleConfig_Inr(1)[of k d s _ s1] expandSimpleConfig_Inl(1)[of k d s _ s1]
  by (cases x) auto

lemma prepareClusterConfig_merges:
  "prepareClusterConfig k sc s = (x, s2) \<Longrightarrow>
   \<exists>tr. trace s2 = trace s @ tr \<and> list_all (\<lambda>ev. merges (fst ev)) tr"
  by (auto simp: prepareClusterConfig_def invoke_def
      split: prod.splits sum.splits option.splits)

lemma createCluster_merges:
  "createCluster k n cc s = (x, s3) \<Longrightarrow>
   \<exists>tr. trace s3 = trace s @ tr \<and> list_all (\<lambda>ev. merges (fst ev)) tr"
  by (auto simp: createCluster_def invoke_def Let_def
      split: prod.splits sum.splits option.splits)

lemma updateDefaultKubeconfig_merges:
  "\<exists>tr. trace (updateDefaultKubeconfig k sc cc s) = trace s @ tr
     \<and> list_all (\<lambda>ev. merges (fst ev)) tr"
  by (auto simp: updateDefaultKubeconfig_def invoke_def Let_def log_warn_def
      split: prod.splits sum.splits)

lemma resourceClusterRead_merges:
  "resourceClusterRead k d s = (r, d', s') \<Longrightarrow>
   \<exists>tr. trace s' = trace s @ tr \<and> list_all (\<lambda>ev. merges (fst ev)) tr"
  by (auto simp: resourceClusterRead_def invoke_def Let_def log_warn_def
      split: prod.splits sum.splits option.splits)

lemma resourceClusterCreate_merges:
  assumes c: "resourceClusterCreate k d s = (r, d', s')"
  shows "list_all (\<lambda>ev. merges (fst ev)) (issued s s')"
proof -
  obtain x s1 where e: "expandSimpleConfig k d s = (x, s1)" by (cases "expandSimpleConfig k d s")
  from expandSimpleConfig_merges[OF e] obtain t1
    where t1: "trace s1 = trace s @ t1" "list_all (\<lambda>ev. merges (fst ev)) t1" by blast
  show ?thesis
  proof (cases x)
    case (Inl p)
    with e c have "s' = s1" by (auto simp: resourceClusterCreate_def)
    with t1 show ?thesis by simp
  next
    case (Inr simpleConfig)
    obtain y s2 where p: "prepareClusterConfig k simpleConfig s1 = (y, s2)"
      by (cases "prepareClusterConfig k simpleConfig s1")
    from prepareClusterConfig_merges[OF p] obtain t2
      where t2: "trace s2 = trace s1 @ t2" "list_all (\<lambda>ev. merges (fst ev)) t2" by blast
    show ?thesis
    proof (cases y)
      case L: (Inl diags)
      with e Inr p c have "s' = s2" by (auto simp: resourceClusterCreate_def)
      with t1 t2 show ?thesis by (simp add: issued_def)
    next
      case R: (Inr clusterConfig)
      obtain z s3 where cr: "createCluster k (name d) clusterConfig s2 = (z, s3)"
        by (cases "createCluster k (name d) clusterConfig s2")
      from createCluster_merges[OF cr] obtain t3
        where t3: "trace s3 = trace s2 @ t3" "list_all (\<lambda>ev. merges (fst ev)) t3" by blast
      show ?thesis
      proof (cases z)
        case (Some diags)
        with e Inr p R cr c have "s' = s3" by (auto simp: resourceClusterCreate_def)
        with t1 t2 t3 show ?thesis by (simp add: issued_def)
      next
        case None
        let ?s4 = "updateDefaultKubeconfig k simpleConfig clusterConfig s3"
        from None e Inr p R cr c
        have rd: "resourceClusterRead k (SetId (name d) d) ?s4 = (r, d', s')"
          by (auto simp: resourceClusterCreate_def)
        from updateDefaultKubeconfig_merges obtain t4
          where t4: "trace ?s4 = trace s3 @ t4" "list_all (\<lambda>ev. merges (fst ev)) t4" by blast
        from resourceClusterRead_merges[OF rd] obtain t5
          where t5: "trace s' = trace ?s4 @ t5" "list_all (\<lambda>ev. merges (fst ev)) t5" by blast
        from t1 t2 t3 t4 t5 show ?thesis by (simp add: issued_def)
      qed
    qed
  qed
qed

lemma not_from_kubeconfig_mono:
  "not_from_kubeconfig tr diags \<Longrightarrow> set tr \<subseteq> set tr' \<Longrightarrow> not_from_kubeconfig tr' diags"
  by (auto simp: not_from_kubeconfig_def list_all_iff list_ex_iff)

lemma resourceClusterRead_not_from_kubeconfig:
  "resourceClusterRead k d s = (Inr diags, d', s') \<Longrightarrow>
   \<exists>tr. trace s' = trace s @ tr \<and> not_from_kubeconfig tr diags"
  by (auto simp: resourceClusterRead_def invoke_def Let_def log_warn_def
      not_from_kubeconfig_def FromErr_def
      split: prod.splits sum.splits option.splits)

lemma resourceClusterCreate_not_from_kubeconfig:
  assumes c: "resourceClusterCreate k d s = (Inr diags, d', s')"
    and cs: "create_succeeded (issued s s')"
  shows "not_from_kubeconfig (issued s s') diags"
proof -
  obtain x s1 where e: "expandSimpleConfig k d s = (x, s1)" by (cases "expandSimpleConfig k d s")
  show ?thesis
  proof (cases x)
    case (Inl p)
    with e c show ?thesis by (simp add: resourceClusterCreate_def)
  next
    case (Inr simpleConfig)
    from expandSimpleConfig_Inr(1) e Inr obtain gp
      where t1: "trace s1 = trace s @ [(Call_GetFreePort, gp)]" by blast
    obtain y s2 where p: "prepareClusterConfig k simpleConfig s1 = (y, s2)"
      by (cases "prepareClusterConfig k simpleConfig s1")
    show ?thesis
    proof (cases y)
      case L: (Inl ds)
      with e Inr p c have eq: "s' = s2" by (auto simp: resourceClusterCreate_def)
      from prepareClusterConfig_Inl p L obtain t2
        where "trace s2 = trace s1 @ t2" "\<not> create_succeeded t2" by blast
      with t1 eq cs show ?thesis by (simp add: issued_def)
    next
      case R: (Inr clusterConfig)
      from prepareClusterConfig_Inr p R obtain t2
        where t2: "trace s2 = trace s1 @ t2" "\<not> create_succeeded t2" by blast
      obtain z s3 where cr: "createCluster k (name d) clusterConfig s2 = (z, s3)"
        by (cases "createCluster k (name d) clusterConfig s2")
      show ?thesis
      proof (cases z)
        case (Some ds)
        with e Inr p R cr c have eq: "s' = s3" by (auto simp: resourceClusterCreate_def)
        from createCluster_Some cr Some obtain t3
          where "trace s3 = trace s2 @ t3" "\<not> create_succeeded t3" by blast
        with t1 t2 eq cs show ?thesis by (simp add: issued_def)
      next
        case None
        let ?s4 = "updateDefaultKubeconfig k simpleConfig clusterConfig s3"
        from None e Inr p R cr c
        have rd: "resourceClusterRead k (SetId (name d) d) ?s4 = (Inr diags, d', s')"
          by (auto simp: resourceClusterCreate_def)
        from createCluster_merges[OF cr] obtain t3 where t3: "trace s3 = trace s2 @ t3"
          by blast
        from updateDefaultKubeconfig_merges obtain t4 where t4: "trace ?s4 = trace s3 @ t4"
          by blast
        from resourceClusterRead_not_from_kubeconfig[OF rd] obtain t5
          where t5: "trace s' = trace ?s4 @ t5" "not_from_kubeconfig t5 diags" by blast
        have "set t5 \<subseteq> set (issued s s')"
          using t1 t2 t3 t4 t5(1) by (auto simp: issued_def)
        with not_from_kubeconfig_mono[OF t5(2)] show ?thesis by simp
      qed
    qed
  qed
qed

text \<open>
  Claim C7. A failed merge into the default kubeconfig only adds a warning to the log, and
  Create goes on to the read-back; there a failed fetch of the kubeconfig only adds a
  warning too, and Create returns no diagnostic at all, with the identity set, whatever the
  merge did. Every kubeconfig write that Create issues updates the existing entries and
  does not overwrite the file. Whenever Create returns a diagnostic after the cluster was
  created, its message is the error of a call that does not fetch a kubeconfig.
\<close>

theorem kubeconfig_failures_are_warnings:
  "(UpdateDefaultKubeconfig (KubeconfigOpts cc) \<longrightarrow>
      KubeconfigGetWrite k (Config_Cluster cc) []
         \<lparr>UpdateExisting = True, OverwriteExisting = False,
          UpdateCurrentContext = SwitchCurrentContext (KubeconfigOptions (Options sc))\<rparr>
         (world s3) = (Inl e, w) \<longrightarrow>
      updateDefaultKubeconfig k sc cc s3 =
        s3\<lparr>world := w,
           trace := trace s3 @
             [(Call_KubeconfigGetWrite (Config_Cluster cc) []
                 \<lparr>UpdateExisting = True, OverwriteExisting = False,
                  UpdateCurrentContext = SwitchCurrentContext (KubeconfigOptions (Options sc))\<rparr>,
               Some e)],
           logged := logged s3 @ [''[WARN] '' @ e]\<rparr>)
   \<and> (expandSimpleConfig k d s = (Inr sc, s1) \<longrightarrow>
      prepareClusterConfig k sc s1 = (Inr cc, s2) \<longrightarrow>
      createCluster k (name d) cc s2 = (None, s3) \<longrightarrow>
      ClusterGet k (named_cluster (name d)) (world (updateDefaultKubeconfig k sc cc s3))
        = (Inr cl, w5) \<longrightarrow>
      d_Set k ''network'' w5 = (None, w6) \<longrightarrow>
      d_Set k ''token'' w6 = (None, w7) \<longrightarrow>
      KubeconfigGet k cl w7 = (Inl e', w8) \<longrightarrow>
        fst (resourceClusterCreate k d s) = Inr []
      \<and> ResourceId (fst (snd (resourceClusterCreate k d s))) = name d
      \<and> logged (snd (snd (resourceClusterCreate k d s)))
          = logged (updateDefaultKubeconfig k sc cc s3) @ [''[WARN] '' @ e'])
   \<and> (resourceClusterCreate k d s = (r, d', s') \<longrightarrow>
      list_all (\<lambda>ev. merges (fst ev)) (issued s s'))
   \<and> (resourceClusterCreate k d s = (Inr diags, d', s') \<longrightarrow>
      create_succeeded (issued s s') \<longrightarrow> not_from_kubeconfig (issued s s') diags)"
proof (intro conjI impI)
  assume "resourceClusterCreate k d s = (Inr diags, d', s')" "create_succeeded (issued s s')"
  then show "not_from_kubeconfig (issued s s') diags"
    by (rule resourceClusterCreate_not_from_kubeconfig)
next
  assume "UpdateDefaultKubeconfig (KubeconfigOpts cc)"
    "KubeconfigGetWrite k (Config_Cluster cc) []
         \<lparr>UpdateExisting = True, OverwriteExisting = False,
          UpdateCurrentContext = SwitchCurrentContext (KubeconfigOptions (Options sc))\<rparr>
         (world s3) = (Inl e, w)"
  then show "updateDefaultKubeconfig k sc cc s3 =
        s3\<lparr>world := w,
           trace := trace s3 @
             [(Call_KubeconfigGetWrite (Config_Cluster cc) []
                 \<lparr>UpdateExisting = True, OverwriteExisting = False,
                  UpdateCurrentContext = SwitchCurrentContext (KubeconfigOptions (Options sc))\<rparr>,
               Some e)],
           logged := logged s3 @ [''[WARN] '' @ e]\<rparr>"
    by (simp add: updateDefaultKubeconfig_def invoke_def Let_def log_warn_def)
next
  assume "resourceClusterCreate k d s = (r, d', s')"
  then show "list_all (\<lambda>ev. merges (fst ev)) (issued s s')"
    by (rule resourceClusterCreate_merges)
next
  let ?s4 = "updateDefaultKubeconfig k sc cc s3"
  assume a: "expandSimpleConfig k d s = (Inr sc, s1)"
    "prepareClusterConfig k sc s1 = (Inr cc, s2)"
    "createCluster k (name d) cc s2 = (None, s3)"
    and b: "ClusterGet k (named_cluster (name d)) (world ?s4) = (Inr cl, w5)"
    "d_Set k ''network'' w5 = (None, w6)"
    "d_Set k ''token'' w6 = (None, w7)"
    "KubeconfigGet k cl w7 = (Inl e', w8)"
  from a have c: "resourceClusterCreate k d s = resourceClusterRead k (SetId (name d) d) ?s4"
    by (simp add: resourceClusterCreate_def)
  have n: "name (SetId (name d) d) = name d"
    by (simp add: SetId_def)
  from b show "fst (resourceClusterCreate k d s) = Inr []"
    unfolding c by (simp add: resourceClusterRead_def n invoke_def Let_def)
  from b show "ResourceId (fst (snd (resourceClusterCreate k d s))) = name d"
    unfolding c by (simp add: resourceClusterRead_def n invoke_def Let_def SetId_def)
  from b show "logged (snd (snd (resourceClusterCreate k d s))) = logged ?s4 @ [''[WARN] '' @ e']"
    unfolding c by (simp add: resourceClusterRead_def n invoke_def Let_def log_warn_def)
qed

lemma run_syncing:
  "\<exists>sc s1 cc s2 s3.
      expandSimpleConfig sim_k3d bar_cluster_syncing (start sim_kubeconfig_fails) = (Inr sc, s1)
    \<and> prepareClusterConfig sim_k3d sc s1 = (Inr cc, s2)
    \<and> createCluster sim_k3d (name bar_cluster_syncing) cc s2 = (None, s3)
    \<and> UpdateDefaultKubeconfig (KubeconfigOpts cc)
    \<and> world s3 = sim_bar_started_kubeconfig_fails
    \<and> logged s3 = []
    \<and> KubeconfigGetWrite sim_k3d (Config_Cluster cc) []
         \<lparr>UpdateExisting = True, OverwriteExisting = False,
          UpdateCurrentContext = SwitchCurrentContext (KubeconfigOptions (Options sc))\<rparr>
         sim_bar_started_kubeconfig_fails
        = (Inl ''no kubeconfig'', sim_bar_started_kubeconfig_fails)"
  by (simp add: cluster_ops sim_k3d_sel sim_inputs sim_worlds
      sim_bar_started_kubeconfig_fails_def)

lemma run_syncing_read:
  "ClusterGet sim_k3d (named_cluster (name bar_cluster_syncing)) sim_bar_started_kubeconfig_fails
     = (Inr \<lparr>Cluster_Name = ''bar'', Cluster_Network_Name = ''k3d-bar'',
             Cluster_Token = ''secret''\<rparr>, sim_bar_started_kubeconfig_fails)"
  "d_Set sim_k3d key sim_bar_started_kubeconfig_fails = (None, sim_bar_started_kubeconfig_fails)"
  "KubeconfigGet sim_k3d
     \<lparr>Cluster_Name = ''bar'', Cluster_Network_Name = ''k3d-bar'', Cluster_Token = ''secret''\<rparr>
     sim_bar_started_kubeconfig_fails
     = (Inl ''no kubeconfig'', sim_bar_started_kubeconfig_fails)"
  by (simp_all add: sim_k3d_sel sim_inputs sim_worlds sim_kubeconfig_def named_cluster_def
      sim_bar_started_kubeconfig_fails_def)

theorem kubeconfig_failures_are_warnings_witness:
  "(\<exists>sc s1 cc s2 s3.
      expandSimpleConfig sim_k3d bar_cluster_syncing (start sim_kubeconfig_fails) = (Inr sc, s1)
    \<and> prepareClusterConfig sim_k3d sc s1 = (Inr cc, s2)
    \<and> createCluster sim_k3d (name bar_cluster_syncing) cc s2 = (None, s3)
    \<and> UpdateDefaultKubeconfig (KubeconfigOpts cc)
    \<and> KubeconfigGetWrite sim_k3d (Config_Cluster cc) []
         \<lparr>UpdateExisting = True, OverwriteExisting = False,
          UpdateCurrentContext = SwitchCurrentContext (KubeconfigOptions (Options sc))\<rparr>
         (world s3)
        = (Inl ''no kubeconfig'', sim_bar_started_kubeconfig_fails)
    \<and> logged (updateDefaultKubeconfig sim_k3d sc cc s3) = [''[WARN] no kubeconfig'']
    \<and> fst (resourceClusterCreate sim_k3d bar_cluster_syncing (start sim_kubeconfig_fails))
        = Inr []
    \<and> ResourceId (fst (snd (resourceClusterCreate sim_k3d bar_cluster_syncing
          (start sim_kubeconfig_fails)))) = ''bar''
    \<and> logged (snd (snd (resourceClusterCreate sim_k3d bar_cluster_syncing
          (start sim_kubeconfig_fails))))
        = [''[WARN] no kubeconfig'', ''[WARN] no kubeconfig'']
    \<and> list_all (\<lambda>ev. merges (fst ev))
         (issued (start sim_kubeconfig_fails)
            (snd (snd (resourceClusterCreate sim_k3d bar_cluster_syncing
               (start sim_kubeconfig_fails))))))
   \<and> (fst (resourceClusterCreate sim_k3d bar_cluster (start sim_set_fails))
        = Inr (FromErr ''Invalid address to set'')
      \<and> create_succeeded (issued (start sim_set_fails)
            (snd (snd (resourceClusterCreate sim_k3d bar_cluster (start sim_set_fails)))))
      \<and> not_from_kubeconfig (issued (start sim_set_fails)
            (snd (snd (resourceClusterCreate sim_k3d bar_cluster (start sim_set_fails)))))
          (FromErr ''Invalid address to set''))"
proof (intro conjI)
  let ?Y = "resourceClusterCreate sim_k3d bar_cluster (start sim_set_fails)"
  show r: "fst ?Y = Inr (FromErr ''Invalid address to set'')"
    by (simp add: cluster_ops sim_k3d_sel sim_inputs sim_worlds)
  show cs: "create_succeeded (issued (start sim_set_fails) (snd (snd ?Y)))"
    by (simp add: cluster_ops sim_k3d_sel sim_inputs sim_worlds issued_def)
  have "?Y = (Inr (FromErr ''Invalid address to set''), fst (snd ?Y), snd (snd ?Y))"
    using r by (metis prod.collapse)
  with kubeconfig_failures_are_warnings
    [where k = sim_k3d and d = bar_cluster and s = "start sim_set_fails"
       and diags = "FromErr ''Invalid address to set''"
       and d' = "fst (snd ?Y)" and s' = "snd (snd ?Y)"] cs
  show "not_from_kubeconfig (issued (start sim_set_fails) (snd (snd ?Y)))
      (FromErr ''Invalid address to set'')"
    by blast
next
  let ?W = sim_bar_started_kubeconfig_fails
  let ?d = bar_cluster_syncing
  let ?s = "start sim_kubeconfig_fails"
  let ?X = "resourceClusterCreate sim_k3d ?d ?s"
  let ?cl = "\<lparr>Cluster_Name = ''bar'', Cluster_Network_Name = ''k3d-bar'',
             Cluster_Token = ''secret''\<rparr>"
  from run_syncing obtain sc s1 cc s2 s3 where
    a: "expandSimpleConfig sim_k3d ?d ?s = (Inr sc, s1)"
      "prepareClusterConfig sim_k3d sc s1 = (Inr cc, s2)"
      "createCluster sim_k3d (name ?d) cc s2 = (None, s3)"
    and u: "UpdateDefaultKubeconfig (KubeconfigOpts cc)"
    and w: "world s3 = ?W" "logged s3 = []"
    and g: "KubeconfigGetWrite sim_k3d (Config_Cluster cc) []
         \<lparr>UpdateExisting = True, OverwriteExisting = False,
          UpdateCurrentContext = SwitchCurrentContext (KubeconfigOptions (Options sc))\<rparr>
         ?W = (Inl ''no kubeconfig'', ?W)"
    by blast
  note inst = kubeconfig_failures_are_warnings
    [where k = sim_k3d and cc = cc and sc = sc and ?s3.0 = s3 and e = "''no kubeconfig''"
       and w = ?W and d = ?d and s = ?s and ?s1.0 = s1 and ?s2.0 = s2 and cl = ?cl
       and ?w5.0 = ?W and ?w6.0 = ?W and ?w7.0 = ?W and ?w8.0 = ?W
       and e' = "''no kubeconfig''"
       and r = "fst ?X" and d' = "fst (snd ?X)" and s' = "snd (snd ?X)"]
  from inst u g w(1)
  have up: "updateDefaultKubeconfig sim_k3d sc cc s3 =
        s3\<lparr>world := ?W,
           trace := trace s3 @
             [(Call_KubeconfigGetWrite (Config_Cluster cc) []
                 \<lparr>UpdateExisting = True, OverwriteExisting = False,
                  UpdateCurrentContext = SwitchCurrentContext (KubeconfigOptions (Options sc))\<rparr>,
               Some ''no kubeconfig'')],
           logged := logged s3 @ [''[WARN] '' @ ''no kubeconfig'']\<rparr>"
    by simp
  then have l4: "logged (updateDefaultKubeconfig sim_k3d sc cc s3) = [''[WARN] no kubeconfig'']"
    and w4: "world (updateDefaultKubeconfig sim_k3d sc cc s3) = ?W"
    using w(2) by simp_all
  from inst a w4 run_syncing_read
  have e2e: "fst ?X = Inr []" "ResourceId (fst (snd ?X)) = name ?d"
    "logged (snd (snd ?X))
       = logged (updateDefaultKubeconfig sim_k3d sc cc s3) @ [''[WARN] '' @ ''no kubeconfig'']"
    by simp_all
  from inst have m: "list_all (\<lambda>ev. merges (fst ev)) (issued ?s (snd (snd ?X)))"
    by simp
  have nm: "name ?d = ''bar''"
    by (simp add: sim_inputs sim_worlds)
  from a u g w(1) l4 e2e m nm
  show "\<exists>sc s1 cc s2 s3.
      expandSimpleConfig sim_k3d bar_cluster_syncing (start sim_kubeconfig_fails) = (Inr sc, s1)
    \<and> prepareClusterConfig sim_k3d sc s1 = (Inr cc, s2)
    \<and> createCluster sim_k3d (name bar_cluster_syncing) cc s2 = (None, s3)
    \<and> UpdateDefaultKubeconfig (KubeconfigOpts cc)
    \<and> KubeconfigGetWrite sim_k3d (Config_Cluster cc) []
         \<lparr>UpdateExisting = True, OverwriteExisting = False,
          UpdateCurrentContext = SwitchCurrentContext (KubeconfigOptions (Options sc))\<rparr>
         (world s3)
        = (Inl ''no kubeconfig'', sim_bar_started_kubeconfig_fails)
    \<and> logged (updateDefaultKubeconfig sim_k3d sc cc s3) = [''[WARN] no kubeconfig'']
    \<and> fst (resourceClusterCreate sim_k3d bar_cluster_syncing (start sim_kubeconfig_fails))
        = Inr []
    \<and> ResourceId (fst (snd (resourceClusterCreate sim_k3d bar_cluster_syncing
          (start sim_kubeconfig_fails)))) = ''bar''
    \<and> logged (snd (snd (resourceClusterCreate sim_k3d bar_cluster_syncing
          (start sim_kubeconfig_fails))))
        = [''[WARN] no kubeconfig'', ''[WARN] no kubeconfig'']
    \<and> list_all (\<lambda>ev. merges (fst ev))
         (issued (start sim_kubeconfig_fails)
            (snd (snd (resourceClusterCreate sim_k3d bar_cluster_syncing
               (start sim_kubeconfig_fails)))))"
    by (intro exI[of _ sc] exI[of _ s1] exI[of _ cc] exI[of _ s2] exI[of _ s3]) simp
qed

section \<open>The text of the errors\<close>

lemma resourceClusterCreate_errors:
  assumes c: "resourceClusterCreate k d s = (Inr diags, d', s')"
  shows "propagated (issued s s') diags \<or> diags = Errorf already_exists_text
         \<or> diags = Errorf rollback_failed_text"
proof -
  obtain x s1 where e: "expandSimpleConfig k d s = (x, s1)" by (cases "expandSimpleConfig k d s")
  show ?thesis
  proof (cases x)
    case (Inl p)
    with e c show ?thesis by (simp add: resourceClusterCreate_def)
  next
    case (Inr simpleConfig)
    from expandSimpleConfig_Inr(1) e Inr obtain gp
      where t1: "trace s1 = trace s @ [(Call_GetFreePort, gp)]" by blast
    obtain y s2 where p: "prepareClusterConfig k simpleConfig s1 = (y, s2)"
      by (cases "prepareClusterConfig k simpleConfig s1")
    show ?thesis
    proof (cases y)
      case L: (Inl ds)
      with e Inr p c have eq: "s' = s2" "diags = ds" by (auto simp: resourceClusterCreate_def)
      from prepareClusterConfig_Inl p L obtain t2
        where t2: "trace s2 = trace s1 @ t2" "propagated t2 ds" by blast
      have "set t2 \<subseteq> set (issued s s')"
        using t1 t2(1) eq(1) by (auto simp: issued_def)
      with propagated_mono[OF t2(2)] eq(2) show ?thesis by simp
    next
      case R: (Inr clusterConfig)
      from prepareClusterConfig_Inr p R obtain t2
        where t2: "trace s2 = trace s1 @ t2" by blast
      obtain z s3 where cr: "createCluster k (name d) clusterConfig s2 = (z, s3)"
        by (cases "createCluster k (name d) clusterConfig s2")
      show ?thesis
      proof (cases z)
        case (Some ds)
        with e Inr p R cr c have eq: "s' = s3" "diags = ds"
          by (auto simp: resourceClusterCreate_def)
        from createCluster_Some cr Some obtain t3
          where t3: "trace s3 = trace s2 @ t3"
            "propagated t3 ds \<or> ds = Errorf already_exists_text
               \<or> ds = Errorf rollback_failed_text" by blast
        have "set t3 \<subseteq> set (issued s s')"
          using t1 t2 t3(1) eq(1) by (auto simp: issued_def)
        with propagated_mono[of t3 ds "issued s s'"] t3(2) eq(2)
        show ?thesis by auto
      next
        case None
        let ?s4 = "updateDefaultKubeconfig k simpleConfig clusterConfig s3"
        from None e Inr p R cr c
        have rd: "resourceClusterRead k (SetId (name d) d) ?s4 = (Inr diags, d', s')"
          by (auto simp: resourceClusterCreate_def)
        from createCluster_merges[OF cr] obtain t3 where t3: "trace s3 = trace s2 @ t3"
          by blast
        from updateDefaultKubeconfig_merges obtain t4 where t4: "trace ?s4 = trace s3 @ t4"
          by blast
        from resourceClusterRead_facts(3)[OF rd] obtain t5
          where t5: "trace s' = trace ?s4 @ t5" "propagated t5 diags" by blast
        have "set t5 \<subseteq> set (issued s s')"
          using t1 t2 t3 t4 t5(1) by (auto simp: issued_def)
        with propagated_mono[OF t5(2)] show ?thesis by simp
      qed
    qed
  qed
qed

lemma resourceClusterRead_errors:
  "resourceClusterRead k d s = (Inr diags, d', s') \<Longrightarrow> propagated (issued s s') diags"
  using resourceClusterRead_facts(3)[of k d s "Inr diags" d' s'] by auto

lemma resourceClusterDelete_errors:
  "resourceClusterDelete k d s = (Inr diags, d', s') \<Longrightarrow> propagated (issued s s') diags"
  by (auto simp: resourceClusterDelete_def invoke_def Let_def issued_def
      split: prod.splits option.splits)

lemma resourceNodeRead_errors:
  "resourceNodeRead k d s = (diags, d', s') \<Longrightarrow> propagated (issued s s') diags"
  using resourceNodeRead_facts[of k d s diags d' s'] by auto

lemma resourceNodeCreate_errors:
  "resourceNodeCreate k d s = (diags, d', s') \<Longrightarrow> propagated (issued s s') diags"
  by (auto simp: resourceNodeCreate_def invoke_def Let_def issued_def
      split: prod.splits option.splits dest!: resourceNodeRead_facts
      intro: propagated_mono)

lemma resourceNodeDelete_errors:
  "resourceNodeDelete k d s = (diags, d', s') \<Longrightarrow> propagated (issued s s') diags"
  by (auto simp: resourceNodeDelete_def invoke_def Let_def issued_def
      split: prod.splits option.splits)

lemma resourceRegistryRead_errors:
  "resourceRegistryRead k d s = (Inr diags, d', s') \<Longrightarrow> propagated (issued s s') diags"
  using resourceRegistryRead_facts[of k d s "Inr diags" d' s'] by auto

lemma resourceRegistryCreate_errors:
  "resourceRegistryCreate k d s = (Inr diags, d', s') \<Longrightarrow> propagated (issued s s') diags"
  by (auto simp: resourceRegistryCreate_def invoke_def Let_def issued_def
      split: prod.splits sum.splits
      dest!: resourceRegistryRead_facts expandExposureOpts_state
      intro: propagated_mono)

lemma resourceRegistryDelete_errors:
  "resourceRegistryDelete k d s = (Inr diags, d', s') \<Longrightarrow> propagated (issued s s') diags"
  by (auto simp: resourceRegistryDelete_def invoke_def Let_def issued_def
      split: prod.splits option.splits)

text \<open>
  Claim C8, as amended. Every diagnostic that Create, Read or Delete of a cluster, a node
  or a registry returns is an error whose message is the text of an error that one of the
  calls of the operation returned, with two exceptions in the Create of a cluster: the
  already-exists error and the rollback-failed error have fixed messages. The
  rollback-failed message is the same text whatever the creation and the delete returned: it
  carries neither of the two error texts.
\<close>

theorem errors_carry_collaborator_text:
  "(resourceClusterCreate k dc s = (Inr diags, dc', s') \<longrightarrow>
      propagated (issued s s') diags \<or> diags = Errorf already_exists_text
      \<or> diags = Errorf rollback_failed_text)
   \<and> (resourceClusterRead k dc s = (Inr diags, dc', s') \<longrightarrow> propagated (issued s s') diags)
   \<and> (resourceClusterDelete k dc s = (Inr diags, dc', s') \<longrightarrow> propagated (issued s s') diags)
   \<and> (resourceNodeCreate k dn s = (diags, dn', s') \<longrightarrow> propagated (issued s s') diags)
   \<and> (resourceNodeRead k dn s = (diags, dn', s') \<longrightarrow> propagated (issued s s') diags)
   \<and> (resourceNodeDelete k dn s = (diags, dn', s') \<longrightarrow> propagated (issued s s') diags)
   \<and> (resourceRegistryCreate k dr s = (Inr diags, dr', s') \<longrightarrow> propagated (issued s s') diags)
   \<and> (resourceRegistryRead k dr s = (Inr diags, dr', s') \<longrightarrow> propagated (issued s s') diags)
   \<and> (resourceRegistryDelete k dr s = (Inr diags, dr', s') \<longrightarrow> propagated (issued s s') diags)
   \<and> (expandSimpleConfig k dc s = (Inr simpleConfig, s1) \<longrightarrow>
      prepareClusterConfig k simpleConfig s1 = (Inr clusterConfig, s2) \<longrightarrow>
      ClusterGet k (Config_Cluster clusterConfig) (world s2) = (Inl ge, w3) \<longrightarrow>
      ClusterRun k clusterConfig w3 = (Some e, w4) \<longrightarrow>
      ClusterDelete k (named_cluster (name dc)) \<lparr>SkipRegistryCheck = False\<rparr> w4
        = (Some deleteErr, w5) \<longrightarrow>
      fst (resourceClusterCreate k dc s)
        = Inr [\<lparr>Severity = Error, Summary = rollback_failed_text\<rparr>])"
proof (intro conjI impI)
  assume a: "expandSimpleConfig k dc s = (Inr simpleConfig, s1)"
    "prepareClusterConfig k simpleConfig s1 = (Inr clusterConfig, s2)"
    "ClusterGet k (Config_Cluster clusterConfig) (world s2) = (Inl ge, w3)"
    "ClusterRun k clusterConfig w3 = (Some e, w4)"
    "ClusterDelete k (named_cluster (name dc)) \<lparr>SkipRegistryCheck = False\<rparr> w4
        = (Some deleteErr, w5)"
  from a(3,4,5) have "\<exists>s3. createCluster k (name dc) clusterConfig s2
      = (Some [\<lparr>Severity = Error, Summary = rollback_failed_text\<rparr>], s3)"
    by (simp add: createCluster_def invoke_def Let_def Errorf_def)
  then obtain s3 where "createCluster k (name dc) clusterConfig s2
      = (Some [\<lparr>Severity = Error, Summary = rollback_failed_text\<rparr>], s3)"
    by blast
  with a(1,2) show "fst (resourceClusterCreate k dc s)
        = Inr [\<lparr>Severity = Error, Summary = rollback_failed_text\<rparr>]"
    by (simp add: resourceClusterCreate_def)
qed (simp_all add: resourceClusterCreate_errors resourceClusterRead_errors
    resourceClusterDelete_errors resourceNodeCreate_errors resourceNodeRead_errors
    resourceNodeDelete_errors resourceRegistryCreate_errors resourceRegistryRead_errors
    resourceRegistryDelete_errors)

text \<open>
  The claim as stated fails on the rollback-failed error: where the creation fails with
  \<open>Failed Cluster Start\<close> and the delete with \<open>docker failed to remove volume\<close>, the one
  message returned includes neither text.
\<close>

theorem rollback_failed_message_counterexample:
  "map_sum id (map Summary)
     (fst (resourceClusterCreate sim_k3d bar_cluster (start sim_rollback_fails)))
     = Inr [rollback_failed_text]
   \<and> map snd (trace (snd (snd (resourceClusterCreate sim_k3d bar_cluster
         (start sim_rollback_fails)))))
     = [None, None, None, None, Some ''No nodes found for given cluster'',
        Some ''Failed Cluster Start'', Some ''docker failed to remove volume'']
   \<and> \<not> Contains rollback_failed_text ''Failed Cluster Start''
   \<and> \<not> Contains rollback_failed_text ''docker failed to remove volume''"
proof (intro conjI)
  show "\<not> Contains rollback_failed_text ''Failed Cluster Start''"
    by (simp add: rollback_failed_text_def)
  show "\<not> Contains rollback_failed_text ''docker failed to remove volume''"
    by (simp add: rollback_failed_text_def)
qed (simp_all add: cluster_ops sim_k3d_sel sim_inputs sim_worlds FromErr_def Errorf_def)

lemma run_failing:
  "fst (resourceClusterCreate sim_k3d bar_cluster (start sim_run_fails))
     = Inr (FromErr ''Failed Cluster Start'')"
  "fst (resourceClusterRead sim_k3d bar_cluster (start sim_world))
     = Inr (FromErr ''No nodes found for given cluster'')"
  "fst (resourceClusterDelete sim_k3d bar_cluster (start sim_rollback_fails))
     = Inr (FromErr ''docker failed to remove volume'')"
  "fst (resourceNodeCreate sim_k3d bar_node (start sim_world))
     = FromErr ''Failed to find specified cluster''"
  "fst (resourceNodeRead sim_k3d bar_node (start sim_world)) = FromErr ''No node found''"
  "fst (resourceNodeDelete sim_k3d bar_node (start sim_world)) = FromErr ''No node found''"
  "fst (resourceRegistryCreate sim_k3d bar_registry (start sim_registry_running))
     = Inr (FromErr ''Failed to create registry: name in use'')"
  "fst (resourceRegistryRead sim_k3d bar_registry (start sim_world))
     = Inr (FromErr ''No node found'')"
  "fst (resourceRegistryDelete sim_k3d bar_registry (start sim_world))
     = Inr (FromErr ''No node found'')"
  by (simp_all add: cluster_ops node_ops registry_ops sim_k3d_sel sim_inputs sim_worlds)

theorem errors_carry_collaborator_text_witness:
  "(fst (resourceClusterCreate sim_k3d bar_cluster (start sim_run_fails))
      = Inr (FromErr ''Failed Cluster Start'')
    \<and> propagated (issued (start sim_run_fails)
          (snd (snd (resourceClusterCreate sim_k3d bar_cluster (start sim_run_fails)))))
        (FromErr ''Failed Cluster Start''))
   \<and> (fst (resourceClusterRead sim_k3d bar_cluster (start sim_world))
      = Inr (FromErr ''No nodes found for given cluster'')
    \<and> propagated (issued (start sim_world)
          (snd (snd (resourceClusterRead sim_k3d bar_cluster (start sim_world)))))
        (FromErr ''No nodes found for given cluster''))
   \<and> (fst (resourceClusterDelete sim_k3d bar_cluster (start sim_rollback_fails))
      = Inr (FromErr ''docker failed to remove volume'')
    \<and> propagated (issued (start sim_rollback_fails)
          (snd (snd (resourceClusterDelete sim_k3d bar_cluster (start sim_rollback_fails)))))
        (FromErr ''docker failed to remove volume''))
   \<and> propagated (issued (start sim_world)
          (snd (snd (resourceNodeCreate sim_k3d bar_node (start sim_world)))))
        (FromErr ''Failed to find specified cluster'')
   \<and> propagated (issued (start sim_world)
          (snd (snd (resourceNodeRead sim_k3d bar_node (start sim_world)))))
        (FromErr ''No node found'')
   \<and> propagated (issued (start sim_world)
          (snd (snd (resourceNodeDelete sim_k3d bar_node (start sim_world)))))
        (FromErr ''No node found'')
   \<and> propagated (issued (start sim_registry_running)
          (snd (snd (resourceRegistryCreate sim_k3d bar_registry (start sim_registry_running)))))
        (FromErr ''Failed to create registry: name in use'')
   \<and> propagated (issued (start sim_world)
          (snd (snd (resourceRegistryRead sim_k3d bar_registry (start sim_world)))))
        (FromErr ''No node found'')
   \<and> propagated (issued (start sim_world)
          (snd (snd (resourceRegistryDelete sim_k3d bar_registry (start sim_world)))))
        (FromErr ''No node found'')
   \<and> fst (resourceClusterCreate sim_k3d bar_cluster (start sim_rollback_fails))
        = Inr [\<lparr>Severity = Error, Summary = rollback_failed_text\<rparr>]"
proof -
  have ne: "FromErr ''Failed Cluster Start'' \<noteq> Errorf already_exists_text"
    "FromErr ''Failed Cluster Start'' \<noteq> Errorf rollback_failed_text"
    by (simp_all add: FromErr_def Errorf_def already_exists_text_def rollback_failed_text_def)
  let ?c = "resourceClusterCreate sim_k3d bar_cluster (start sim_run_fails)"
  have "?c = (Inr (FromErr ''Failed Cluster Start''), fst (snd ?c), snd (snd ?c))"
    using run_failing(1) by (metis prod.collapse)
  with errors_carry_collaborator_text
    [where k = sim_k3d and dc = bar_cluster and s = "start sim_run_fails"
       and diags = "FromErr ''Failed Cluster Start''"
       and dc' = "fst (snd ?c)" and s' = "snd (snd ?c)"] ne
  have p1: "propagated (issued (start sim_run_fails) (snd (snd ?c)))
      (FromErr ''Failed Cluster Start'')"
    by blast
  let ?r = "resourceClusterRead sim_k3d bar_cluster (start sim_world)"
  have "?r = (Inr (FromErr ''No nodes found for given cluster''), fst (snd ?r), snd (snd ?r))"
    using run_failing(2) by (metis prod.collapse)
  with errors_carry_collaborator_text
    [where k = sim_k3d and dc = bar_cluster and s = "start sim_world"
       and diags = "FromErr ''No nodes found for given cluster''"
       and dc' = "fst (snd ?r)" and s' = "snd (snd ?r)"]
  have p2: "propagated (issued (start sim_world) (snd (snd ?r)))
      (FromErr ''No nodes found for given cluster'')"
    by blast
  let ?d = "resourceClusterDelete sim_k3d bar_cluster (start sim_rollback_fails)"
  have "?d = (Inr (FromErr ''docker failed to remove volume''), fst (snd ?d), snd (snd ?d))"
    using run_failing(3) by (metis prod.collapse)
  with errors_carry_collaborator_text
    [where k = sim_k3d and dc = bar_cluster and s = "start sim_rollback_fails"
       and diags = "FromErr ''docker failed to remove volume''"
       and dc' = "fst (snd ?d)" and s' = "snd (snd ?d)"]
  have p3: "propagated (issued (start sim_rollback_fails) (snd (snd ?d)))
      (FromErr ''docker failed to remove volume'')"
    by blast
  let ?nc = "resourceNodeCreate sim_k3d bar_node (start sim_world)"
  have "?nc = (FromErr ''Failed to find specified cluster'', fst (snd ?nc), snd (snd ?nc))"
    using run_failing(4) by (metis prod.collapse)
  with errors_carry_collaborator_text
    [where k = sim_k3d and dn = bar_node and s = "start sim_world"
       and diags = "FromErr ''Failed to find specified cluster''"
       and dn' = "fst (snd ?nc)" and s' = "snd (snd ?nc)"]
  have p4: "propagated (issued (start sim_world) (snd (snd ?nc)))
      (FromErr ''Failed to find specified cluster'')"
    by blast
  let ?nr = "resourceNodeRead sim_k3d bar_node (start sim_world)"
  have "?nr = (FromErr ''No node found'', fst (snd ?nr), snd (snd ?nr))"
    using run_failing(5) by (metis prod.collapse)
  with errors_carry_collaborator_text
    [where k = sim_k3d and dn = bar_node and s = "start sim_world"
       and diags = "FromErr ''No node found''"
       and dn' = "fst (snd ?nr)" and s' = "snd (snd ?nr)"]
  have p5: "propagated (issued (start sim_world) (snd (snd ?nr))) (FromErr ''No node found'')"
    by blast
  let ?nd = "resourceNodeDelete sim_k3d bar_node (start sim_world)"
  have "?nd = (FromErr ''No node found'', fst (snd ?nd), snd (snd ?nd))"
    using run_failing(6) by (metis prod.collapse)
  with errors_carry_collaborator_text
    [where k = sim_k3d and dn = bar_node and s = "start sim_world"
       and diags = "FromErr ''No node found''"
       and dn' = "fst (snd ?nd)" and s' = "snd (snd ?nd)"]
  have p6: "propagated (issued (start sim_world) (snd (snd ?nd))) (FromErr ''No node found'')"
    by blast
  let ?rc = "resourceRegistryCreate sim_k3d bar_registry (start sim_registry_running)"
  have "?rc = (Inr (FromErr ''Failed to create registry: name in use''),
      fst (snd ?rc), snd (snd ?rc))"
    using run_failing(7) by (metis prod.collapse)
  with errors_carry_collaborator_text
    [where k = sim_k3d and dr = bar_registry and s = "start sim_registry_running"
       and diags = "FromErr ''Failed to create registry: name in use''"
       and dr' = "fst (snd ?rc)" and s' = "snd (snd ?rc)"]
  have p7: "propagated (issued (start sim_registry_running) (snd (snd ?rc)))
      (FromErr ''Failed to create registry: name in use'')"
    by blast
  let ?rr = "resourceRegistryRead sim_k3d bar_registry (start sim_world)"
  have "?rr = (Inr (FromErr ''No node found''), fst (snd ?rr), snd (snd ?rr))"
    using run_failing(8) by (metis prod.collapse)
  with errors_carry_collaborator_text
    [where k = sim_k3d and dr = bar_registry and s = "start sim_world"
       and diags = "FromErr ''No node found''"
       and dr' = "fst (snd ?rr)" and s' = "snd (snd ?rr)"]
  have p8: "propagated (issued (start sim_world) (snd (snd ?rr))) (FromErr ''No node found'')"
    by blast
  let ?rd = "resourceRegistryDelete sim_k3d bar_registry (start sim_world)"
  have "?rd = (Inr (FromErr ''No node found''), fst (snd ?rd), snd (snd ?rd))"
    using run_failing(9) by (metis prod.collapse)
  with errors_carry_collaborator_text
    [where k = sim_k3d and dr = bar_registry and s = "start sim_world"
       and diags = "FromErr ''No node found''"
       and dr' = "fst (snd ?rd)" and s' = "snd (snd ?rd)"]
  have p9: "propagated (issued (start sim_world) (snd (snd ?rd))) (FromErr ''No node found'')"
    by blast
  have dl: "ClusterDelete sim_k3d (named_cluster (name bar_cluster))
      \<lparr>SkipRegistryCheck = False\<rparr> sim_rollback_fails
      = (Some ''docker failed to remove volume'', sim_rollback_fails)"
    by (simp add: sim_k3d_sel sim_worlds sim_inputs named_cluster_def)
  from run_rollback(1) obtain sc s1 cc s2 where
    a: "expandSimpleConfig sim_k3d bar_cluster (start sim_rollback_fails) = (Inr sc, s1)"
      "prepareClusterConfig sim_k3d sc s1 = (Inr cc, s2)"
      "ClusterGet sim_k3d (Config_Cluster cc) (world s2)
        = (Inl ''No nodes found for given cluster'', sim_rollback_fails)"
      "ClusterRun sim_k3d cc sim_rollback_fails
        = (Some ''Failed Cluster Start'', sim_rollback_fails)"
    by blast
  with errors_carry_collaborator_text
    [where k = sim_k3d and dc = bar_cluster and s = "start sim_rollback_fails"
       and simpleConfig = sc and ?s1.0 = s1 and clusterConfig = cc and ?s2.0 = s2
       and ge = "''No nodes found for given cluster''" and ?w3.0 = sim_rollback_fails
       and e = "''Failed Cluster Start''" and ?w4.0 = sim_rollback_fails
       and deleteErr = "''docker failed to remove volume''" and ?w5.0 = sim_rollback_fails] dl
  have p10: "fst (resourceClusterCreate sim_k3d bar_cluster (start sim_rollback_fails))
        = Inr [\<lparr>Severity = Error, Summary = rollback_failed_text\<rparr>]"
    by blast
  from p1 p2 p3 p4 p5 p6 p7 p8 p9 p10 run_failing show ?thesis
    by simp
qed

end
